theory Spec2Isabelle
  imports Main "HOL-Library.Sublist"
begin

section \<open>Strings\<close>

text \<open>
  A Python \<open>str\<close> is modelled as a \<^typ>\<open>string\<close> whose characters are the code points
  below 256. \<open>isspace\<close> and \<open>lower_char\<close> are Python's \<open>str.isspace\<close> and \<open>str.lower\<close> on
  that range.
\<close>

definition isspace :: "char \<Rightarrow> bool" where
  "isspace c = ((of_char c :: nat) \<in> {9, 10, 11, 12, 13, 28, 29, 30, 31, 32, 133, 160})"

definition strip :: "string \<Rightarrow> string" where
  "strip s = rev (dropWhile isspace (rev (dropWhile isspace s)))"

definition lower_char :: "char \<Rightarrow> char" where
  "lower_char c =
     (let n = (of_char c :: nat)
      in if (65 \<le> n \<and> n \<le> 90) \<or> (192 \<le> n \<and> n \<le> 222 \<and> n \<noteq> 215)
         then char_of (n + 32) else c)"

definition lower :: "string \<Rightarrow> string" where
  "lower s = map lower_char s"

definition startswith :: "string \<Rightarrow> string \<Rightarrow> bool" where
  "startswith s p = (take (length p) s = p)"

definition endswith :: "string \<Rightarrow> string \<Rightarrow> bool" where
  "endswith s p = (length p \<le> length s \<and> drop (length s - length p) s = p)"

definition removeprefix :: "string \<Rightarrow> string \<Rightarrow> string" where
  "removeprefix s p = (if startswith s p then drop (length p) s else s)"

definition removesuffix :: "string \<Rightarrow> string \<Rightarrow> string" where
  "removesuffix s p =
     (if p \<noteq> [] \<and> endswith s p then take (length s - length p) s else s)"

fun digits :: "nat \<Rightarrow> string" where
  "digits n =
     (if n < 10 then [char_of (48 + n)]
      else digits (n div 10) @ [char_of (48 + n mod 10)])"

definition str_int :: "int \<Rightarrow> string" where
  "str_int i = (if i < 0 then CHR ''-'' # digits (nat (- i)) else digits (nat i))"

section \<open>The curriculum store (models.py)\<close>

text \<open>
  The six curriculum tables of models.py. A row is an instance of a model with its column
  values; the timestamp columns (which always receive their default) are left out. The
  store is the list of committed rows in insertion order, and \<open>first()\<close> returns the
  earliest inserted match.
\<close>

datatype model = Subject | Grade | Strand | SubStrand | LearningOutcome | KeyInquiryQuestion

text \<open>
  The scalar values of Python that a column or a field of a JSON body holds: \<open>None\<close>, a
  \<open>bool\<close>, an \<open>int\<close>, a \<open>float\<close> or a \<open>str\<close>. A float is what \<open>json.loads\<close> makes of a number
  with a fraction or an exponent and of \<open>NaN\<close>, \<open>Infinity\<close> and \<open>-Infinity\<close> (a literal too
  large for a double, such as \<open>1e999\<close>, is an infinity). \<open>Finite m e t\<close> is the float of value
  \<open>m * 2 ^ e\<close>; \<open>t\<close> is the text \<open>str\<close> gives for it (its shortest decimal that reads back
  as the same float), which is taken with the value and not computed here.
\<close>

datatype pyfloat = Finite int int string | PosInf | NegInf | NaN

datatype scalar = SNull | SBool bool | SInt int | SFloat pyfloat | SStr string

type_synonym kwargs = "(string \<times> scalar) list"

record row =
  r_model :: model
  r_cols :: kwargs

type_synonym database = "row list"

text \<open>
  The exceptions of the store, of the importer's row handling and of the conversions of
  a request's fields. An \<open>IntegrityError\<close> carries the kind of constraint the database
  reports as violated.
\<close>

datatype violation = NotNullViolation | UniqueViolation | ForeignKeyViolation

datatype db_error =
  IntegrityError violation | DataError | TypeError | InvalidRequestError | AttributeError |
  ValueError | OverflowError

definition attr :: "row \<Rightarrow> string \<Rightarrow> scalar" where
  "attr r c = (case map_of (r_cols r) c of None \<Rightarrow> SNull | Some v \<Rightarrow> v)"

fun columns :: "model \<Rightarrow> string list" where
  "columns Subject = [''id'', ''name'']"
| "columns Grade = [''id'', ''name'']"
| "columns Strand = [''id'', ''name'', ''subject_id'', ''grade_id'']"
| "columns SubStrand = [''id'', ''name'', ''strand_id'']"
| "columns LearningOutcome = [''id'', ''description'', ''substrand_id'']"
| "columns KeyInquiryQuestion = [''id'', ''question_text'', ''substrand_id'']"

text \<open>Every column but the autoincrement primary key is declared \<open>nullable=False\<close>.\<close>

definition not_null :: "model \<Rightarrow> string list" where
  "not_null m = ''id'' # tl (columns m)"

text \<open>The primary key and the declared \<open>unique=True\<close> / \<open>UniqueConstraint\<close> column sets.\<close>

fun uniques :: "model \<Rightarrow> string list list" where
  "uniques Subject = [[''id''], [''name'']]"
| "uniques Grade = [[''id''], [''name'']]"
| "uniques Strand = [[''id''], [''subject_id'', ''grade_id'', ''name'']]"
| "uniques SubStrand = [[''id''], [''strand_id'', ''name'']]"
| "uniques LearningOutcome = [[''id'']]"
| "uniques KeyInquiryQuestion = [[''id'']]"

fun foreign_keys :: "model \<Rightarrow> (string \<times> model) list" where
  "foreign_keys Subject = []"
| "foreign_keys Grade = []"
| "foreign_keys Strand = [(''subject_id'', Subject), (''grade_id'', Grade)]"
| "foreign_keys SubStrand = [(''strand_id'', Strand)]"
| "foreign_keys LearningOutcome = [(''substrand_id'', SubStrand)]"
| "foreign_keys KeyInquiryQuestion = [(''substrand_id'', SubStrand)]"

text \<open>\<open>db.String(n)\<close> columns; \<open>db.Text\<close> has no limit.\<close>

fun max_length :: "model \<Rightarrow> (string \<times> nat) list" where
  "max_length Subject = [(''name'', 255)]"
| "max_length Grade = [(''name'', 100)]"
| "max_length Strand = [(''name'', 255)]"
| "max_length SubStrand = [(''name'', 255)]"
| "max_length LearningOutcome = []"
| "max_length KeyInquiryQuestion = []"

definition table :: "database \<Rightarrow> model \<Rightarrow> row list" where
  "table db m = filter (\<lambda>r. r_model r = m) db"

definition matches :: "kwargs \<Rightarrow> row \<Rightarrow> bool" where
  "matches kw r = list_all (\<lambda>(c, v). attr r c = v) kw"

text \<open>\<open>session.query(model).filter_by(**kwargs).first()\<close>; an unknown column name raises.\<close>

definition query_first :: "database \<Rightarrow> model \<Rightarrow> kwargs \<Rightarrow> db_error + row option" where
  "query_first db m kw =
     (if list_all (\<lambda>(c, v). c \<in> set (columns m)) kw
      then Inr (find (\<lambda>r. r_model r = m \<and> matches kw r) db)
      else Inl InvalidRequestError)"

text \<open>\<open>model(**params)\<close>: the declarative constructor rejects a keyword that is no attribute.\<close>

definition new_instance :: "model \<Rightarrow> kwargs \<Rightarrow> db_error + row" where
  "new_instance m params =
     (if list_all (\<lambda>(c, v). c \<in> set (columns m)) params
      then Inr \<lparr>r_model = m, r_cols = params\<rparr>
      else Inl TypeError)"

definition next_id :: "database \<Rightarrow> model \<Rightarrow> int" where
  "next_id db m =
     1 + fold (\<lambda>r a. case attr r ''id'' of SInt n \<Rightarrow> max n a | _ \<Rightarrow> a) (table db m) 0"

definition too_long :: "row \<Rightarrow> bool" where
  "too_long r =
     list_ex (\<lambda>(c, n). case attr r c of SStr s \<Rightarrow> n < length s | _ \<Rightarrow> False)
       (max_length (r_model r))"

definition null_violation :: "row \<Rightarrow> bool" where
  "null_violation r = list_ex (\<lambda>c. attr r c = SNull) (not_null (r_model r))"

definition violates :: "database \<Rightarrow> row \<Rightarrow> string list \<Rightarrow> bool" where
  "violates db r u =
     (list_all (\<lambda>c. attr r c \<noteq> SNull) u \<and>
      list_ex (\<lambda>r'. list_all (\<lambda>c. attr r' c = attr r c) u) (table db (r_model r)))"

definition unique_violation :: "database \<Rightarrow> row \<Rightarrow> bool" where
  "unique_violation db r = list_ex (violates db r) (uniques (r_model r))"

definition fk_violation :: "database \<Rightarrow> row \<Rightarrow> bool" where
  "fk_violation db r =
     list_ex (\<lambda>(c, m'). attr r c \<noteq> SNull \<and>
                         \<not> list_ex (\<lambda>r'. attr r' ''id'' = attr r c) (table db m'))
       (foreign_keys (r_model r))"

text \<open>
  \<open>session.add(instance); session.commit()\<close>: the INSERT assigns the next id when none is
  given, a value longer than its \<open>String(n)\<close> column is a \<open>DataError\<close>, and a violated
  NOT NULL, unique or foreign-key constraint is an \<open>IntegrityError\<close>. On success the row
  is committed and the instance carries its id.
\<close>

definition with_id :: "database \<Rightarrow> row \<Rightarrow> row" where
  "with_id db inst =
     (if attr inst ''id'' = SNull
      then inst\<lparr>r_cols := (''id'', SInt (next_id db (r_model inst))) # r_cols inst\<rparr>
      else inst)"

definition add_commit :: "database \<Rightarrow> row \<Rightarrow> db_error + (row \<times> database)" where
  "add_commit db inst =
     (let r = with_id db inst
      in if too_long r then Inl DataError
         else if null_violation r then Inl (IntegrityError NotNullViolation)
         else if unique_violation db r then Inl (IntegrityError UniqueViolation)
         else if fk_violation db r then Inl (IntegrityError ForeignKeyViolation)
         else Inr (r, db @ [r]))"

text \<open>
  Rows other sessions commit while a call is between its query and its own commit: each is
  inserted under the same constraints, and one that violates them is dropped.
\<close>

fun commit_others :: "row list \<Rightarrow> database \<Rightarrow> database" where
  "commit_others [] db = db"
| "commit_others (r # rs) db =
     (case add_commit db r of
        Inl e \<Rightarrow> commit_others rs db
      | Inr (r', db') \<Rightarrow> commit_others rs db')"

section \<open>get_or_create (commands.py)\<close>

text \<open>\<open>{**kwargs, **(defaults or {})}\<close>: a key of \<open>defaults\<close> overrides the same key of \<open>kwargs\<close>.\<close>

definition dict_merge :: "kwargs \<Rightarrow> kwargs \<Rightarrow> kwargs" where
  "dict_merge kw defaults = filter (\<lambda>(c, v). map_of defaults c = None) kw @ defaults"

text \<open>
  The result pairs what the call returns or raises with the committed store it leaves.
  \<open>others\<close> are the rows concurrent writers commit between this call's query and its
  commit (\<open>[]\<close> for a single writer). A rollback discards only this call's uncommitted
  insert.
\<close>

definition get_or_create ::
  "row list \<Rightarrow> database \<Rightarrow> model \<Rightarrow> kwargs \<Rightarrow> kwargs \<Rightarrow>
     (db_error + (row option \<times> bool)) \<times> database" where
  "get_or_create others db m defaults kw =
     (case query_first db m kw of
        Inl e \<Rightarrow> (Inl e, db)
      | Inr (Some inst) \<Rightarrow> (Inr (Some inst, False), db)
      | Inr None \<Rightarrow>
          (case new_instance m (dict_merge kw defaults) of
             Inl e \<Rightarrow> (Inl e, db)
           | Inr inst \<Rightarrow>
               (let db1 = commit_others others db
                in case add_commit db1 inst of
                     Inr (inst', db2) \<Rightarrow> (Inr (Some inst', True), db2)
                   | Inl (IntegrityError v) \<Rightarrow>
                       (case query_first db1 m kw of
                          Inl e \<Rightarrow> (Inl e, db1)
                        | Inr found \<Rightarrow> (Inr (found, False), db1))
                   | Inl e \<Rightarrow> (Inl e, db1))))"

text \<open>
  Predicates the statements below use. A call's \<open>kwargs\<close> are a dictionary (no key twice)
  and do not name the primary key; they are a natural key of the model when they name
  exactly the columns of one of its declared unique constraints. \<open>pk_not_null\<close> is the
  store invariant that every committed row has its primary key.
\<close>

definition key_cols :: "kwargs \<Rightarrow> bool" where
  "key_cols kw = (distinct (map fst kw) \<and> ''id'' \<notin> set (map fst kw))"

definition natural_key :: "model \<Rightarrow> kwargs \<Rightarrow> bool" where
  "natural_key m kw = (key_cols kw \<and> list_ex (\<lambda>u. set u = set (map fst kw)) (uniques m))"

definition disjoint_defaults :: "kwargs \<Rightarrow> kwargs \<Rightarrow> bool" where
  "disjoint_defaults kw defaults =
     list_all (\<lambda>(c, v). c \<noteq> ''id'' \<and> c \<notin> set (map fst kw)) defaults"

definition pk_not_null :: "database \<Rightarrow> bool" where
  "pk_not_null db = list_all (\<lambda>r. attr r ''id'' \<noteq> SNull) db"

section \<open>import_curriculum (commands.py)\<close>

text \<open>
  The file system maps a path to what \<open>open\<close> does with it. An opened file is the sequence
  \<open>csv.reader\<close> yields, header first: a record's fields, or an error raised while reading
  (an undecodable byte, a \<open>csv.Error\<close>).
\<close>

datatype read_item = Record "string list" | ReadError

datatype open_result = NotFound | OpenFailed | Opened "read_item list"

type_synonym csv_row = "(string \<times> string option) list"

text \<open>
  \<open>csv.DictReader\<close>: the fields are zipped with the field names, a later duplicate name
  wins, and the names a short record leaves over get \<open>None\<close>.
\<close>

definition dict_row :: "string list \<Rightarrow> string list \<Rightarrow> csv_row" where
  "dict_row fieldnames cells =
     rev (zip fieldnames (map Some cells @ replicate (length fieldnames - length cells) None))"

text \<open>\<open>row.get(k, '').strip()\<close>; \<open>None.strip()\<close> raises \<open>AttributeError\<close>.\<close>

definition get_strip :: "csv_row \<Rightarrow> string \<Rightarrow> db_error + string" where
  "get_strip row k =
     (case map_of row k of
        None \<Rightarrow> Inr (strip [])
      | Some None \<Rightarrow> Inl AttributeError
      | Some (Some v) \<Rightarrow> Inr (strip v))"

definition required_columns :: "string list" where
  "required_columns =
     [''Subject'', ''Grade'', ''Strand'', ''SubStrand'', ''ItemType'', ''ItemText'']"

record names =
  subject_name :: string
  grade_name :: string
  strand_name :: string
  substrand_name :: string
  item_type :: string
  item_text :: string

text \<open>Lines 70 to 75: the six reads happen in this order, and the first \<open>None\<close> raises.\<close>

definition read_fields :: "csv_row \<Rightarrow> db_error + names" where
  "read_fields row =
     (case get_strip row ''Subject'' of Inl e \<Rightarrow> Inl e | Inr a \<Rightarrow>
     (case get_strip row ''Grade'' of Inl e \<Rightarrow> Inl e | Inr b \<Rightarrow>
     (case get_strip row ''Strand'' of Inl e \<Rightarrow> Inl e | Inr c \<Rightarrow>
     (case get_strip row ''SubStrand'' of Inl e \<Rightarrow> Inl e | Inr d \<Rightarrow>
     (case get_strip row ''ItemType'' of Inl e \<Rightarrow> Inl e | Inr t \<Rightarrow>
     (case get_strip row ''ItemText'' of Inl e \<Rightarrow> Inl e | Inr x \<Rightarrow>
        Inr \<lparr>subject_name = a, grade_name = b, strand_name = c, substrand_name = d,
             item_type = t, item_text = x\<rparr>))))))"

definition missing_data :: "names \<Rightarrow> bool" where
  "missing_data f =
     (subject_name f = [] \<or> grade_name f = [] \<or> strand_name f = [] \<or>
      substrand_name f = [] \<or> item_type f = [] \<or> item_text f = [])"

datatype row_outcome = Done | MissingData | InvalidItemType | Raised db_error

type_synonym counts = "model \<Rightarrow> nat"

definition bump :: "bool \<Rightarrow> model \<Rightarrow> counts \<Rightarrow> counts" where
  "bump created m cc = (if created then cc(m := cc m + 1) else cc)"

text \<open>
  The steps of a row (the \<open>kwargs\<close> of the five calls first), last step first. \<open>others m\<close> are the rows concurrent writers commit
  during this row's \<open>get_or_create\<close> on model \<open>m\<close>. The counts are updated in place, so
  what was counted before a row fails stays counted; every \<open>get_or_create\<close> commits, so
  the rollback of the row's handler leaves the store as the last successful call left
  it. An instance that is \<open>None\<close> raises \<open>AttributeError\<close> where its \<open>id\<close> is read.
\<close>

abbreviation subject_key :: "names \<Rightarrow> kwargs" where
  "subject_key f \<equiv> [(''name'', SStr (subject_name f))]"

abbreviation grade_key :: "names \<Rightarrow> kwargs" where
  "grade_key f \<equiv> [(''name'', SStr (grade_name f))]"

abbreviation strand_key :: "names \<Rightarrow> row \<Rightarrow> row \<Rightarrow> kwargs" where
  "strand_key f subject grade \<equiv>
     [(''name'', SStr (strand_name f)),
      (''subject_id'', attr subject ''id''),
      (''grade_id'', attr grade ''id'')]"

abbreviation substrand_key :: "names \<Rightarrow> row \<Rightarrow> kwargs" where
  "substrand_key f strand \<equiv>
     [(''name'', SStr (substrand_name f)), (''strand_id'', attr strand ''id'')]"

abbreviation item_key :: "string \<Rightarrow> names \<Rightarrow> row \<Rightarrow> kwargs" where
  "item_key text_col f substrand \<equiv>
     [(''substrand_id'', attr substrand ''id''), (text_col, SStr (item_text f))]"

definition create_item ::
  "row list \<Rightarrow> model \<Rightarrow> string \<Rightarrow> row option \<Rightarrow> names \<Rightarrow> counts \<Rightarrow> database \<Rightarrow>
     row_outcome \<times> counts \<times> database" where
  "create_item rs m text_col substrand f cc db =
     (case substrand of
        None \<Rightarrow> (Raised AttributeError, cc, db)
      | Some ss \<Rightarrow>
          (case get_or_create rs db m [] (item_key text_col f ss) of
             (Inl e, db') \<Rightarrow> (Raised e, cc, db')
           | (Inr (item, created), db') \<Rightarrow> (Done, bump created m cc, db')))"

definition step_item ::
  "(model \<Rightarrow> row list) \<Rightarrow> row option \<Rightarrow> names \<Rightarrow> counts \<Rightarrow> database \<Rightarrow>
     row_outcome \<times> counts \<times> database" where
  "step_item others substrand f cc db =
     (if item_type f = ''LearningOutcome''
      then create_item (others LearningOutcome) LearningOutcome ''description'' substrand f cc db
      else if item_type f = ''KeyInquiryQuestion''
      then create_item (others KeyInquiryQuestion) KeyInquiryQuestion ''question_text''
             substrand f cc db
      else (InvalidItemType, cc, db))"

definition step_substrand ::
  "(model \<Rightarrow> row list) \<Rightarrow> row option \<Rightarrow> names \<Rightarrow> counts \<Rightarrow> database \<Rightarrow>
     row_outcome \<times> counts \<times> database" where
  "step_substrand others strand f cc db =
     (case strand of
        None \<Rightarrow> (Raised AttributeError, cc, db)
      | Some s \<Rightarrow>
          (case get_or_create (others SubStrand) db SubStrand [] (substrand_key f s) of
             (Inl e, db') \<Rightarrow> (Raised e, cc, db')
           | (Inr (substrand, created), db') \<Rightarrow>
               step_item others substrand f (bump created SubStrand cc) db'))"

definition step_strand ::
  "(model \<Rightarrow> row list) \<Rightarrow> row option \<Rightarrow> row option \<Rightarrow> names \<Rightarrow> counts \<Rightarrow> database \<Rightarrow>
     row_outcome \<times> counts \<times> database" where
  "step_strand others subject grade f cc db =
     (case (subject, grade) of
        (Some subj, Some gr) \<Rightarrow>
          (case get_or_create (others Strand) db Strand [] (strand_key f subj gr) of
             (Inl e, db') \<Rightarrow> (Raised e, cc, db')
           | (Inr (strand, created), db') \<Rightarrow>
               step_substrand others strand f (bump created Strand cc) db')
      | _ \<Rightarrow> (Raised AttributeError, cc, db))"

definition step_grade ::
  "(model \<Rightarrow> row list) \<Rightarrow> row option \<Rightarrow> names \<Rightarrow> counts \<Rightarrow> database \<Rightarrow>
     row_outcome \<times> counts \<times> database" where
  "step_grade others subject f cc db =
     (case get_or_create (others Grade) db Grade [] (grade_key f) of
        (Inl e, db') \<Rightarrow> (Raised e, cc, db')
      | (Inr (grade, created), db') \<Rightarrow>
          step_strand others subject grade f (bump created Grade cc) db')"

definition step_subject ::
  "(model \<Rightarrow> row list) \<Rightarrow> names \<Rightarrow> counts \<Rightarrow> database \<Rightarrow>
     row_outcome \<times> counts \<times> database" where
  "step_subject others f cc db =
     (case get_or_create (others Subject) db Subject [] (subject_key f) of
        (Inl e, db') \<Rightarrow> (Raised e, cc, db')
      | (Inr (subject, created), db') \<Rightarrow>
          step_grade others subject f (bump created Subject cc) db')"

text \<open>The body of the row loop's \<open>try\<close> (lines 70 to 121).\<close>

definition import_body ::
  "(model \<Rightarrow> row list) \<Rightarrow> csv_row \<Rightarrow> counts \<Rightarrow> database \<Rightarrow>
     row_outcome \<times> counts \<times> database" where
  "import_body others row cc db =
     (case read_fields row of
        Inl e \<Rightarrow> (Raised e, cc, db)
      | Inr f \<Rightarrow>
          if missing_data f then (MissingData, cc, db)
          else step_subject others f cc db)"

record import_state =
  processed_count :: nat
  created_counts :: counts
  error_count :: nat
  store :: database

text \<open>One iteration of \<open>for row in reader\<close>, with the handler of the row's \<open>try\<close>.\<close>

definition import_step ::
  "(nat \<Rightarrow> model \<Rightarrow> row list) \<Rightarrow> string list \<Rightarrow> import_state \<Rightarrow> string list \<Rightarrow> import_state" where
  "import_step env fieldnames st cells =
     (let n = processed_count st + 1 in
      case import_body (env n) (dict_row fieldnames cells) (created_counts st) (store st) of
        (outcome, cc, db) \<Rightarrow>
          \<lparr>processed_count = n, created_counts = cc,
           error_count = (if outcome = Done then error_count st else error_count st + 1),
           store = db\<rparr>)"

text \<open>
  The loop. \<open>DictReader\<close> passes over empty records without yielding them; an error raised
  by the reader itself leaves the loop for the outer handler.
\<close>

fun import_loop ::
  "(nat \<Rightarrow> model \<Rightarrow> row list) \<Rightarrow> string list \<Rightarrow> import_state \<Rightarrow> read_item list \<Rightarrow>
     bool \<times> import_state" where
  "import_loop env fieldnames st [] = (False, st)"
| "import_loop env fieldnames st (ReadError # rest) = (True, st)"
| "import_loop env fieldnames st (Record cells # rest) =
     (if cells = [] then import_loop env fieldnames st rest
      else import_loop env fieldnames (import_step env fieldnames st cells) rest)"

definition initial_state :: "database \<Rightarrow> import_state" where
  "initial_state db =
     \<lparr>processed_count = 0, created_counts = (\<lambda>m. 0), error_count = 0, store = db\<rparr>"

definition unexpected :: "import_state \<Rightarrow> import_state" where
  "unexpected st = st\<lparr>error_count := error_count st + 1\<rparr>"

text \<open>
  The command. The result is the state the summary reports, or \<open>None\<close> when the command
  returns before the summary (file not found, required columns missing), and the store
  the run leaves.
\<close>

definition import_curriculum ::
  "(nat \<Rightarrow> model \<Rightarrow> row list) \<Rightarrow> (string \<Rightarrow> open_result) \<Rightarrow> database \<Rightarrow> string \<Rightarrow>
     import_state option" where
  "import_curriculum env fs db csv_filepath =
     (case fs csv_filepath of
        NotFound \<Rightarrow> None
      | OpenFailed \<Rightarrow> Some (unexpected (initial_state db))
      | Opened [] \<Rightarrow> Some (unexpected (initial_state db))
      | Opened (ReadError # rest) \<Rightarrow> Some (unexpected (initial_state db))
      | Opened (Record fieldnames # rest) \<Rightarrow>
          if \<not> list_all (\<lambda>col. col \<in> set fieldnames) required_columns then None
          else
            (case import_loop env fieldnames (initial_state db) rest of
               (False, st) \<Rightarrow> Some st
             | (True, st) \<Rightarrow> Some (unexpected st)))"

text \<open>A run with no concurrent writer.\<close>

definition quiet :: "nat \<Rightarrow> model \<Rightarrow> row list" where
  "quiet n m = []"

text \<open>
  \<open>counted db cc db' cc'\<close>: from \<open>(db, cc)\<close> to \<open>(db', cc')\<close> every table grew by exactly
  what its created count grew by.
\<close>

definition counted :: "database \<Rightarrow> counts \<Rightarrow> database \<Rightarrow> counts \<Rightarrow> bool" where
  "counted db cc db' cc' = (\<forall>m. length (table db' m) + cc m = length (table db m) + cc' m)"

section \<open>JSON values, requests and responses (app.py)\<close>

text \<open>
  JSON values as \<open>json.loads\<close> returns them. A request body is a JSON object whose fields
  are scalars (\<^typ>\<open>scalar\<close>); \<open>data.get(k)\<close> of an absent key is \<open>None\<close>. A response is a
  status code and a JSON body; an exception no handler catches gives the framework's 500
  response.
\<close>

datatype json =
  JNull | JBool bool | JInt int | JFloat pyfloat | JStr string | JList "json list" |
  JObj "(string \<times> json) list"

record response =
  status :: nat
  body :: json

record request =
  is_json :: bool
  data :: kwargs

definition field :: "kwargs \<Rightarrow> string \<Rightarrow> scalar" where
  "field d k = (case map_of d k of None \<Rightarrow> SNull | Some v \<Rightarrow> v)"

fun truthy :: "scalar \<Rightarrow> bool" where
  "truthy SNull = False"
| "truthy (SBool b) = b"
| "truthy (SInt i) = (i \<noteq> 0)"
| "truthy (SFloat (Finite m e t)) = (m \<noteq> 0)"
| "truthy (SFloat x) = True"
| "truthy (SStr s) = (s \<noteq> [])"

fun float_str :: "pyfloat \<Rightarrow> string" where
  "float_str (Finite m e t) = t"
| "float_str PosInf = ''inf''"
| "float_str NegInf = ''-inf''"
| "float_str NaN = ''nan''"

fun py_str :: "scalar \<Rightarrow> string" where
  "py_str SNull = ''None''"
| "py_str (SBool b) = (if b then ''True'' else ''False'')"
| "py_str (SInt i) = str_int i"
| "py_str (SFloat x) = float_str x"
| "py_str (SStr s) = s"

definition error_response :: "nat \<Rightarrow> string \<Rightarrow> response" where
  "error_response code msg = \<lparr>status = code, body = JObj [(''error'', JStr msg)]\<rparr>"

definition error_details :: "nat \<Rightarrow> string \<Rightarrow> string \<Rightarrow> response" where
  "error_details code msg details =
     \<lparr>status = code, body = JObj [(''error'', JStr msg), (''details'', JStr details)]\<rparr>"

definition unhandled :: response where
  "unhandled = \<lparr>status = 500, body = JNull\<rparr>"

text \<open>
  \<open>int(x)\<close> of a scalar, or the exception it raises. Of a string \<open>int\<close> skips the white
  space at both ends (the ASCII white space and, of the other code points below 256, the
  next-line and no-break space; not the separators \<open>0x1C\<close> to \<open>0x1F\<close> that \<open>str.strip\<close>
  removes), accepts one sign and then decimal digits with single underscores between
  them, and refuses more than 4300 digits (the interpreter's default limit); every
  refusal is a \<open>ValueError\<close>. Of a float it is the value truncated towards zero; an
  infinity raises \<open>OverflowError\<close> and a NaN \<open>ValueError\<close>. \<open>int(None)\<close> raises \<open>TypeError\<close>.
\<close>

definition is_digit :: "char \<Rightarrow> bool" where
  "is_digit c = (48 \<le> (of_char c :: nat) \<and> (of_char c :: nat) \<le> 57)"

fun digits_ok :: "string \<Rightarrow> bool" where
  "digits_ok [] = False"
| "digits_ok [c] = is_digit c"
| "digits_ok (c # d # cs) =
     (is_digit c \<and> (if d = CHR ''_'' then digits_ok cs else digits_ok (d # cs)))"

definition digits_value :: "string \<Rightarrow> int" where
  "digits_value s =
     foldl (\<lambda>a c. 10 * a + (int (of_char c) - 48)) 0 (filter (\<lambda>c. c \<noteq> CHR ''_'') s)"

definition int_space :: "char \<Rightarrow> bool" where
  "int_space c = ((of_char c :: nat) \<in> {9, 10, 11, 12, 13, 32, 133, 160})"

definition max_str_digits :: nat where
  "max_str_digits = 4300"

definition int_digits :: "string \<Rightarrow> int option" where
  "int_digits ds =
     (if digits_ok ds \<and> length (filter is_digit ds) \<le> max_str_digits
      then Some (digits_value ds) else None)"

definition int_of_str :: "string \<Rightarrow> int option" where
  "int_of_str s =
     (case rev (dropWhile int_space (rev (dropWhile int_space s))) of
        [] \<Rightarrow> None
      | c # cs \<Rightarrow>
          if c = CHR ''-'' then map_option uminus (int_digits cs)
          else if c = CHR ''+'' then int_digits cs
          else int_digits (c # cs))"

fun float_int :: "pyfloat \<Rightarrow> db_error + int" where
  "float_int (Finite m e t) =
     Inr (if 0 \<le> e then m * 2 ^ nat e
          else if 0 \<le> m then m div 2 ^ nat (- e)
          else - ((- m) div 2 ^ nat (- e)))"
| "float_int PosInf = Inl OverflowError"
| "float_int NegInf = Inl OverflowError"
| "float_int NaN = Inl ValueError"

fun py_int :: "scalar \<Rightarrow> db_error + int" where
  "py_int SNull = Inl TypeError"
| "py_int (SBool b) = Inr (if b then 1 else 0)"
| "py_int (SInt i) = Inr i"
| "py_int (SFloat x) = float_int x"
| "py_int (SStr s) = (case int_of_str s of None \<Rightarrow> Inl ValueError | Some i \<Rightarrow> Inr i)"

section \<open>Registration and login (app.py, models.User)\<close>

record user =
  user_id :: int
  email :: string
  password_hash :: string

text \<open>The password hashing primitive is a parameter.\<close>

record bcrypt =
  generate_password_hash :: "string \<Rightarrow> string"
  check_password_hash :: "string \<Rightarrow> string \<Rightarrow> bool"

definition to_dict :: "user \<Rightarrow> json" where
  "to_dict u = JObj [(''id'', JInt (user_id u)), (''email'', JStr (email u))]"

definition next_user_id :: "user list \<Rightarrow> int" where
  "next_user_id users = 1 + fold (\<lambda>u a. max (user_id u) a) users 0"

text \<open>
  \<open>register\<close>: the result is the response and the users table. A credential that is not a
  string raises where it is used as one, and an email longer than \<open>String(120)\<close> or a hash
  longer than \<open>String(60)\<close> fails the insert; neither is handled, and nothing is committed.
\<close>

definition register :: "bcrypt \<Rightarrow> user list \<Rightarrow> request \<Rightarrow> response \<times> user list" where
  "register bc users req =
     (if \<not> is_json req then (error_response 400 ''Request must be JSON'', users)
      else if \<not> truthy (field (data req) ''email'') \<or> \<not> truthy (field (data req) ''password'')
      then (error_response 400 ''Missing credentials'', users)
      else
        (case field (data req) ''email'' of
           SStr e \<Rightarrow>
             (case find (\<lambda>u. email u = lower (strip e)) users of
                Some u \<Rightarrow> (error_response 409 ''Email exists'', users)
              | None \<Rightarrow>
                  (case field (data req) ''password'' of
                     SStr p \<Rightarrow>
                       (let u = \<lparr>user_id = next_user_id users, email = lower (strip e),
                                 password_hash = generate_password_hash bc p\<rparr>
                        in if 120 < length (email u) \<or> 60 < length (password_hash u)
                           then (unhandled, users)
                           else (\<lparr>status = 201, body = to_dict u\<rparr>, users @ [u]))
                   | _ \<Rightarrow> (unhandled, users)))
         | _ \<Rightarrow> (unhandled, users)))"

text \<open>\<open>login\<close>: the result is the response and the user \<open>login_user\<close> put in the session.\<close>

definition login :: "bcrypt \<Rightarrow> user list \<Rightarrow> request \<Rightarrow> response \<times> user option" where
  "login bc users req =
     (if \<not> is_json req then (error_response 400 ''Request must be JSON'', None)
      else if \<not> truthy (field (data req) ''email'') \<or> \<not> truthy (field (data req) ''password'')
      then (error_response 400 ''Missing credentials'', None)
      else
        (case field (data req) ''email'' of
           SStr e \<Rightarrow>
             (case find (\<lambda>u. email u = lower (strip e)) users of
                None \<Rightarrow> (error_response 401 ''Invalid credentials'', None)
              | Some u \<Rightarrow>
                  (case field (data req) ''password'' of
                     SStr p \<Rightarrow>
                       if check_password_hash bc (password_hash u) p
                       then (\<lparr>status = 200, body = to_dict u\<rparr>, Some u)
                       else (error_response 401 ''Invalid credentials'', None)
                   | _ \<Rightarrow> (unhandled, None)))
         | _ \<Rightarrow> (unhandled, None)))"

section \<open>The question generator (app.py)\<close>

text \<open>
  What a request handler is given: the reads of the curriculum store (each returns a row,
  no row, or raises with a message), the configured AI model (\<open>generate_content\<close> returns
  the response text or raises), \<open>json.loads\<close>, and the email of the logged-in user. What it
  does besides answering is a trace of events, in order.
\<close>

datatype loads_result = Parsed json | JSONDecodeError string | LoadsFailed string

record services =
  store_get :: "model \<Rightarrow> scalar \<Rightarrow> string + row option"
  outcomes_of_strand :: "scalar \<Rightarrow> string + row list"
  ai_model :: "(string \<Rightarrow> string + string) option"
  json_loads :: "string \<Rightarrow> loads_result"
  current_user_email :: string

datatype level = ERROR | WARNING | INFO

datatype event = Read model scalar | ReadOutcomes scalar | Generate string | Log level string

text \<open>Reads in sequence: the first that raises ends the sequence.\<close>

definition then_read ::
  "(string + 'a) \<times> event list \<Rightarrow> ('a \<Rightarrow> (string + 'b) \<times> event list) \<Rightarrow>
     (string + 'b) \<times> event list" where
  "then_read r k =
     (case r of
        (Inl e, ev) \<Rightarrow> (Inl e, ev)
      | (Inr x, ev) \<Rightarrow> (case k x of (y, ev') \<Rightarrow> (y, ev @ ev')))"

definition session_get :: "services \<Rightarrow> model \<Rightarrow> scalar \<Rightarrow> (string + row option) \<times> event list" where
  "session_get sv m k = (store_get sv m k, [Read m k])"

text \<open>A many-to-one relationship attribute: loaded by the foreign key, \<open>None\<close> when it is null.\<close>

definition related ::
  "services \<Rightarrow> model \<Rightarrow> row option \<Rightarrow> string \<Rightarrow> (string + row option) \<times> event list" where
  "related sv m parent fk =
     (case parent of
        None \<Rightarrow> (Inr None, [])
      | Some p \<Rightarrow> if attr p fk = SNull then (Inr None, []) else session_get sv m (attr p fk))"

record lo_context =
  subject :: scalar
  grade :: scalar
  strand :: scalar
  substrand :: scalar
  outcome_description :: scalar

definition py_lines :: "string list \<Rightarrow> string" where
  "py_lines ls = concat (map (\<lambda>l. CHR 0x0A # l) ls)"

definition build_prompt :: "int \<Rightarrow> string \<Rightarrow> lo_context \<Rightarrow> string" where
  \<open>build_prompt num_q mapped_q_type ctx =
     py_lines
       [''        Generate '' @ str_int num_q @ '' unique question(s) based on the Kenyan CBC curriculum.'',
        ''        Question Type: '' @ mapped_q_type @ ''.'',
        ''        Context:'',
        ''        - Subject: '' @ py_str (subject ctx),
        ''        - Grade: '' @ py_str (grade ctx),
        ''        - Strand: '' @ py_str (strand ctx),
        ''        - Sub-Strand: '' @ py_str (substrand ctx),
        ''        - Specific Learning Outcome: "'' @ py_str (outcome_description ctx) @ ''"'',
        [],
        ''        Instructions:'',
        ''        1.  Strictly assess the specified Learning Outcome.'',
        ''        2.  Ensure questions are clear, concise, and grade-appropriate for '' @ py_str (grade ctx) @ ''.'',
        ''        3.  Vary the cognitive skill level of the questions according to Bloom'' @ [CHR 0x27] @ ''s Taxonomy. Aim for a mix of levels (e.g., Remembering, Understanding, Applying, Analyzing).'',
        ''        4.  For each question, indicate the targeted Bloom'' @ [CHR 0x27] @ ''s Taxonomy level.'',
        [],
        ''        Output Format:'',
        ''        Respond ONLY with a valid JSON list of question objects. No extra text before or after the list.'',
        ''        Each question object MUST include '' @ [CHR 0x27] @ ''type'' @ [CHR 0x27] @ '', '' @ [CHR 0x27] @ ''question'' @ [CHR 0x27] @ '', '' @ [CHR 0x27] @ ''taxonomy_level'' @ [CHR 0x27] @ '', and '' @ [CHR 0x27] @ ''answer'' @ [CHR 0x27] @ ''.'',
        ''        For '' @ [CHR 0x27] @ ''multiple_choice'' @ [CHR 0x27] @ '', also include '' @ [CHR 0x27] @ ''options'' @ [CHR 0x27] @ '' (a list of 4 strings).'',
        [],
        ''        Example JSON Output (list of objects):'',
        ''        ['',
        ''            {'',
        ''                "type": "multiple_choice",'',
        ''                "question": "Which of these is a primary color?",'',
        ''                "options": ["Green", "Orange", "Blue", "Purple"],'',
        ''                "answer": "Blue",'',
        ''                "taxonomy_level": "Remembering"'',
        ''            }'',
        ''        ]'',
        ''        '']\<close>

definition allowed_q :: "string list" where
  "allowed_q = [''multiple_choice'', ''short_answer'', ''true_false'', ''fill_in_the_blank'']"

definition q_type_map :: "(string \<times> string) list" where
  "q_type_map = (''mcq'', ''multiple_choice'') # map (\<lambda>t. (t, t)) allowed_q"

definition unsupported_message :: string where
  "unsupported_message =
     ''Unsupported question_type. Use one of: ['' @
     concat (map (\<lambda>k. [CHR 0x27] @ k @ [CHR 0x27] @ '', '') (butlast (map fst q_type_map))) @
     [CHR 0x27] @ last (map fst q_type_map) @ [CHR 0x27] @ '']''"

text \<open>Lines 225 to 234: the learning outcome and its parent chain.\<close>

definition fetch_rows ::
  "services \<Rightarrow> int \<Rightarrow>
     (string + row option \<times> row option \<times> row option \<times> row option \<times> row option) \<times> event list" where
  "fetch_rows sv lo_id =
     then_read (session_get sv LearningOutcome (SInt lo_id)) (\<lambda>lo.
       case lo of
         None \<Rightarrow> (Inr (None, None, None, None, None), [])
       | Some l \<Rightarrow>
     then_read (related sv SubStrand lo ''substrand_id'') (\<lambda>ss.
     then_read (related sv Strand ss ''strand_id'') (\<lambda>s.
     then_read (related sv Subject s ''subject_id'') (\<lambda>subj.
     then_read (related sv Grade s ''grade_id'') (\<lambda>gr.
       (Inr (lo, ss, s, subj, gr), []))))))"

definition fetch_context :: "services \<Rightarrow> int \<Rightarrow> (response + lo_context) \<times> event list" where
  "fetch_context sv lo_id =
     (case fetch_rows sv lo_id of
        (Inl e, ev) \<Rightarrow>
          (Inl (error_response 500 ''Database error fetching context''),
           ev @ [Log ERROR (''DB error fetching context for LO '' @ str_int lo_id @ '': '' @ e)])
      | (Inr (None, rest), ev) \<Rightarrow>
          (Inl (error_response 404
                  (''Learning Outcome ID '' @ str_int lo_id @ '' not found.'')), ev)
      | (Inr (Some lo, Some ss, Some s, Some subj, Some gr), ev) \<Rightarrow>
          (Inr \<lparr>subject = attr subj ''name'', grade = attr gr ''name'', strand = attr s ''name'',
                substrand = attr ss ''name'', outcome_description = attr lo ''description''\<rparr>, ev)
      | (Inr (Some lo, rest), ev) \<Rightarrow>
          (Inl (error_response 500 ''Could not retrieve full context.''),
           ev @ [Log ERROR (''Incomplete context for LO ID '' @ str_int lo_id)]))"

text \<open>
  \<open>clean_text\<close>: what both endpoints make of the AI's raw text before parsing it
  (\<open>strip().removeprefix("```json").removesuffix("```").strip()\<close>).
\<close>

definition clean_text :: "string \<Rightarrow> string" where
  "clean_text raw = strip (removesuffix (removeprefix (strip raw) ''```json'') ''```'')"

fun is_list :: "json \<Rightarrow> bool" where
  "is_list (JList xs) = True"
| "is_list _ = False"

fun json_len :: "json \<Rightarrow> nat" where
  "json_len (JList xs) = length xs"
| "json_len _ = 0"

text \<open>
  Lines 285 to 300: the inner \<open>try\<close>. \<open>Inl\<close> is an exception it lets through to the outer
  handler, with its message.
\<close>

definition parse_questions ::
  "services \<Rightarrow> int \<Rightarrow> string \<Rightarrow> (string + response) \<times> event list" where
  "parse_questions sv lo_id raw =
     (if clean_text raw = []
      then (Inr (error_response 500 ''AI returned an empty response.''),
            [Log WARNING (''AI returned an empty string for LO ID '' @ str_int lo_id)])
      else
        (case json_loads sv (clean_text raw) of
           JSONDecodeError msg \<Rightarrow>
             (Inr (error_details 500 ''AI response format error (JSON).'' msg),
              [Log ERROR (''JSON Parse Error: '' @ msg @ '' on text: '' @ [CHR 0x27] @
                           clean_text raw @ [CHR 0x27])])
         | LoadsFailed msg \<Rightarrow> (Inl msg, [])
         | Parsed gen_q \<Rightarrow>
             if \<not> is_list gen_q then (Inl ''AI response is not a JSON list.'', [])
             else
               (Inr \<lparr>status = 200, body = gen_q\<rparr>,
                (if gen_q = JList []
                 then [Log WARNING (''AI returned an empty JSON list [] for LO ID '' @
                                     str_int lo_id @ ''.'')]
                 else []) @
                [Log INFO (''User '' @ [CHR 0x27] @ current_user_email sv @ [CHR 0x27] @
                           '' generated '' @ str_int (int (json_len gen_q)) @
                           '' questions for LO ID '' @ str_int lo_id)])))"

text \<open>Lines 268 to 304: the call of the AI model, with the outer handler.\<close>

definition call_ai :: "services \<Rightarrow> int \<Rightarrow> string \<Rightarrow> response \<times> event list" where
  "call_ai sv lo_id prompt =
     (case ai_model sv of
        None \<Rightarrow>
          (error_response 500 ''AI Model not available'',
           [Log ERROR ''AI Model not configured during request.''])
      | Some generate_content \<Rightarrow>
          (case (case generate_content prompt of
                   Inl e \<Rightarrow> (Inl e, [])
                 | Inr raw \<Rightarrow> parse_questions sv lo_id raw) of
             (Inr resp, ev) \<Rightarrow> (resp, Generate prompt # ev)
           | (Inl e, ev) \<Rightarrow>
               (error_details 500 ''AI generation failed.'' e,
                Generate prompt # ev @
                [Log ERROR (''AI Generation Error for LO ID '' @ str_int lo_id @ '': '' @ e)])))"

text \<open>
  Lines 212 to 216: the handler of the conversions catches \<open>ValueError\<close> and \<open>TypeError\<close>;
  any other exception leaves the view function.
\<close>

definition conversion_failed :: "db_error \<Rightarrow> response \<times> event list" where
  "conversion_failed e =
     (if e = ValueError \<or> e = TypeError
      then (error_response 400 ''Invalid data types for required fields'', [])
      else (unhandled, []))"

definition generate_questions_endpoint :: "services \<Rightarrow> request \<Rightarrow> response \<times> event list" where
  "generate_questions_endpoint sv req =
     (if \<not> is_json req then (error_response 400 ''Request must be JSON'', [])
      else if data req = [] \<or>
              \<not> list_all (\<lambda>f. f \<in> set (map fst (data req)))
                  [''learning_outcome_id'', ''num_questions'', ''question_type'']
      then (error_response 400 ''Missing required fields'', [])
      else
        (case py_int (field (data req) ''learning_outcome_id'') of
           Inl e \<Rightarrow> conversion_failed e
         | Inr lo_id \<Rightarrow>
        (case py_int (field (data req) ''num_questions'') of
           Inl e \<Rightarrow> conversion_failed e
         | Inr num_q \<Rightarrow>
             (let q_type = lower (py_str (field (data req) ''question_type'')) in
              if \<not> (0 < num_q \<and> num_q \<le> 20)
              then (error_response 400 ''num_questions must be between 1 and 20'', [])
              else
                (case map_of q_type_map q_type of
                   None \<Rightarrow> (error_response 400 unsupported_message, [])
                 | Some mapped_q_type \<Rightarrow>
                     (case fetch_context sv lo_id of
                        (Inl resp, ev) \<Rightarrow> (resp, ev)
                      | (Inr ctx, ev) \<Rightarrow>
                          (case call_ai sv lo_id (build_prompt num_q mapped_q_type ctx) of
                             (resp, ev') \<Rightarrow> (resp, ev @ ev'))))))))"

section \<open>The full-test generator (app.py)\<close>

text \<open>
  The \<open>topics\<close> field: a list whose elements are JSON objects with scalar fields, or
  scalars; \<open>None\<close> stands for a value that is not a list.
\<close>

datatype topic = TopicObject kwargs | TopicScalar scalar

record test_request =
  t_is_json :: bool
  t_data :: kwargs
  topics :: "topic list option"

fun type_name :: "scalar \<Rightarrow> string" where
  "type_name SNull = ''NoneType''"
| "type_name (SBool b) = ''bool''"
| "type_name (SInt i) = ''int''"
| "type_name (SFloat x) = ''float''"
| "type_name (SStr s) = ''str''"

definition join_with :: "string \<Rightarrow> string list \<Rightarrow> string" where
  "join_with sep xs = (case xs of [] \<Rightarrow> [] | y # ys \<Rightarrow> y @ concat (map (\<lambda>z. sep @ z) ys))"

definition section_text :: "nat \<Rightarrow> row \<Rightarrow> scalar \<Rightarrow> row list \<Rightarrow> string" where
  \<open>section_text i strand_row num_questions learning_outcomes =
     (let lo_texts = join_with ([CHR 0x5C] @ ''n- '')
                       (map (\<lambda>lo. py_str (attr lo ''description'')) learning_outcomes)
      in py_lines
           [''---'',
            ''**Section '' @ str_int (int i + 1) @ '': '' @ py_str (attr strand_row ''name'') @ ''**'',
            ''Generate '' @ py_str num_questions @ '' questions (mix of multiple_choice and short_answer) that assess the following learning outcomes:'',
            ''- '' @ lo_texts,
            ''---'',
            []])\<close>

text \<open>
  The loop over \<open>enumerate(topics)\<close>, from index \<open>i\<close>: the sections of the surviving
  topics, concatenated, or the message of the exception that ended the loop.
\<close>

fun build_sections :: "services \<Rightarrow> nat \<Rightarrow> topic list \<Rightarrow> (string + string) \<times> event list" where
  "build_sections sv i [] = (Inr [], [])"
| "build_sections sv i (TopicScalar v # ts) =
     (Inl ([CHR 0x27] @ type_name v @ [CHR 0x27] @ '' object has no attribute '' @
           [CHR 0x27] @ ''get'' @ [CHR 0x27]), [])"
| "build_sections sv i (TopicObject t # ts) =
     (let strand_id = field t ''strand_id'';
          num_questions = (case map_of t ''num_questions'' of None \<Rightarrow> SInt 3 | Some v \<Rightarrow> v)
      in then_read (session_get sv Strand strand_id) (\<lambda>strand.
           case strand of
             None \<Rightarrow> build_sections sv (i + 1) ts
           | Some strand_row \<Rightarrow>
               then_read (outcomes_of_strand sv strand_id, [ReadOutcomes strand_id])
                 (\<lambda>learning_outcomes.
                    if learning_outcomes = [] then build_sections sv (i + 1) ts
                    else then_read (build_sections sv (i + 1) ts) (\<lambda>rest.
                           (Inr (section_text i strand_row num_questions learning_outcomes @ rest),
                            [])))))"

definition test_prompt :: "row \<Rightarrow> row \<Rightarrow> string \<Rightarrow> string" where
  \<open>test_prompt grade_row subject_row prompt_sections =
     py_lines
       [''            You are an expert exam creator for the Kenyan CBC curriculum.'',
        ''            Create a full, well-structured '' @ py_str (attr grade_row ''name'') @ '' '' @ py_str (attr subject_row ''name'') @ '' test paper.'',
        ''            The test must have the following sections, with the specified number of questions for each.'',
        ''            '' @ prompt_sections,
        ''            GLOBAL INSTRUCTIONS:'',
        ''            1. For the entire test, ensure a good mix of question types (multiple_choice, short_answer) and cognitive levels based on Bloom'' @ [CHR 0x27] @ ''s Taxonomy (Remembering, Understanding, Applying, Analyzing).'',
        ''            2. Each generated question must be a JSON object with '' @ [CHR 0x27] @ ''type'' @ [CHR 0x27] @ '', '' @ [CHR 0x27] @ ''question'' @ [CHR 0x27] @ '', '' @ [CHR 0x27] @ ''answer'' @ [CHR 0x27] @ '', and '' @ [CHR 0x27] @ ''taxonomy_level'' @ [CHR 0x27] @ ''. Multiple choice questions must also have an '' @ [CHR 0x27] @ ''options'' @ [CHR 0x27] @ '' list.'',
        ''            FINAL OUTPUT FORMAT:'',
        ''            Respond ONLY with a single, valid JSON object. Do not include any text before or after the JSON.'',
        ''            The JSON object should have the structure: {"test_title": "...", "sections": [{"section_title": "...", "questions": [...]}]}'',
        ''            '']\<close>

definition internal_error :: "string \<Rightarrow> event list \<Rightarrow> response \<times> event list" where
  "internal_error e ev =
     (error_details 500 ''An internal error occurred during test generation.'' e,
      ev @ [Log ERROR (''Full test generation failed: '' @ e)])"

text \<open>
  Lines 361 to 365: what the full-test endpoint makes of the AI's raw text. \<open>Inl\<close> is an
  exception (here every failure of \<open>json.loads\<close>) that goes to the endpoint's handler.
\<close>

definition parse_test :: "services \<Rightarrow> string \<Rightarrow> string + response" where
  "parse_test sv raw =
     (if clean_text raw = [] then Inr (error_response 500 ''AI returned an empty response.'')
      else
        (case json_loads sv (clean_text raw) of
           Parsed generated_test \<Rightarrow> Inr \<lparr>status = 200, body = generated_test\<rparr>
         | JSONDecodeError e \<Rightarrow> Inl e
         | LoadsFailed e \<Rightarrow> Inl e))"

definition generate_full_test_endpoint ::
  "services \<Rightarrow> test_request \<Rightarrow> response \<times> event list" where
  "generate_full_test_endpoint sv req =
     (if \<not> t_is_json req then (error_response 400 ''Request must be JSON'', [])
      else
        (case topics req of
           None \<Rightarrow>
             (error_response 400
                ''Missing or invalid required fields: subject_id, grade_id, topics'', [])
         | Some ts \<Rightarrow>
             if \<not> truthy (field (t_data req) ''subject_id'') \<or>
                \<not> truthy (field (t_data req) ''grade_id'') \<or> ts = []
             then (error_response 400
                     ''Missing or invalid required fields: subject_id, grade_id, topics'', [])
             else
               (case then_read (session_get sv Subject (field (t_data req) ''subject_id''))
                       (\<lambda>subject_row.
                     then_read (session_get sv Grade (field (t_data req) ''grade_id''))
                       (\<lambda>grade_row. (Inr (subject_row, grade_row), []))) of
                  (Inl e, ev) \<Rightarrow> internal_error e ev
                | (Inr (Some subject_row, Some grade_row), ev) \<Rightarrow>
                    (case build_sections sv 0 ts of
                       (Inl e, ev1) \<Rightarrow> internal_error e (ev @ ev1)
                     | (Inr prompt_sections, ev1) \<Rightarrow>
                         if prompt_sections = []
                         then (error_response 400
                                 ''No valid topics with learning outcomes found.'', ev @ ev1)
                         else
                           (case ai_model sv of
                              None \<Rightarrow> (error_response 500 ''AI Model not available'', ev @ ev1)
                            | Some generate_content \<Rightarrow>
                                (let prompt = test_prompt grade_row subject_row prompt_sections;
                                     ev2 = ev @ ev1 @ [Generate prompt]
                                 in case generate_content prompt of
                                      Inl e \<Rightarrow> internal_error e ev2
                                    | Inr raw \<Rightarrow>
                                        (case parse_test sv raw of
                                           Inl e \<Rightarrow> internal_error e ev2
                                         | Inr resp \<Rightarrow> (resp, ev2)))))
                | (Inr rows, ev) \<Rightarrow>
                    (error_response 404 ''Invalid subject_id or grade_id'', ev))))"

text \<open>The reads of the endpoints on the store of the importer, for concrete runs.\<close>

definition store_services :: "database \<Rightarrow> services" where
  "store_services db =
     \<lparr>store_get = (\<lambda>m k. Inr (find (\<lambda>r. r_model r = m \<and> attr r ''id'' = k \<and> k \<noteq> SNull) db)),
      outcomes_of_strand =
        (\<lambda>k. Inr (filter (\<lambda>lo. r_model lo = LearningOutcome \<and>
                 list_ex (\<lambda>ss. r_model ss = SubStrand \<and> attr ss ''id'' \<noteq> SNull \<and>
                                attr ss ''id'' = attr lo ''substrand_id'' \<and>
                                k \<noteq> SNull \<and> attr ss ''strand_id'' = k) db) db)),
      ai_model = None,
      json_loads = (\<lambda>s. JSONDecodeError ''Expecting value''),
      current_user_email = []\<rparr>"

section \<open>Facts about the store and get_or_create\<close>

lemma find_append_Some: "find P xs = Some r \<Longrightarrow> find P (xs @ ys) = Some r"
  by (induction xs) (auto split: if_splits)

lemma find_append_None: "find P xs = None \<Longrightarrow> find P (xs @ ys) = find P ys"
  by (induction xs) (auto split: if_splits)

lemma query_first_append:
  "query_first db m kw = Inr (Some r) \<Longrightarrow> query_first (db @ ys) m kw = Inr (Some r)"
  by (auto simp: query_first_def find_append_Some split: if_splits)

lemma query_first_Some:
  "query_first db m kw = Inr (Some r) \<Longrightarrow> r \<in> set db \<and> r_model r = m \<and> matches kw r"
  by (auto simp: query_first_def find_Some_iff split: if_splits)

lemma add_commit_Inr:
  "add_commit db inst = Inr (r, db') \<Longrightarrow>
     r = with_id db inst \<and> db' = db @ [r] \<and> \<not> too_long r \<and> \<not> null_violation r \<and>
     \<not> unique_violation db r \<and> \<not> fk_violation db r"
  by (auto simp: add_commit_def Let_def split: if_splits)

lemma commit_others_extends: "\<exists>ys. commit_others rs db = db @ ys"
proof (induction rs arbitrary: db)
  case Nil
  then show ?case by simp
next
  case (Cons r rs)
  show ?case
  proof (cases "add_commit db r")
    case (Inl e)
    then show ?thesis using Cons.IH [of db] by simp
  next
    case (Inr p)
    obtain r' db' where p: "p = (r', db')" by (cases p)
    from Inr p have "db' = db @ [r']" by (simp add: add_commit_Inr)
    moreover obtain ys where "commit_others rs db' = db' @ ys" using Cons.IH by blast
    ultimately show ?thesis using Inr p by simp
  qed
qed

lemma get_or_create_hit:
  "query_first db m kw = Inr (Some r) \<Longrightarrow>
     get_or_create others db m defaults kw = (Inr (Some r, False), db)"
  by (simp add: get_or_create_def)

lemma get_or_create_extends:
  "get_or_create others db m defaults kw = (res, db') \<Longrightarrow> \<exists>ys. db' = db @ ys"
proof -
  assume a: "get_or_create others db m defaults kw = (res, db')"
  obtain zs where zs: "commit_others others db = db @ zs"
    using commit_others_extends by blast
  have "db' = db \<or> db' = commit_others others db \<or> (\<exists>r. db' = commit_others others db @ [r])"
    using a
    by (auto simp: get_or_create_def Let_def dest: add_commit_Inr
        split: sum.splits option.splits db_error.splits)
  then show ?thesis using zs by auto
qed

lemma attr_with_id: "c \<noteq> ''id'' \<Longrightarrow> attr (with_id db inst) c = attr inst c"
  by (simp add: with_id_def attr_def)

lemma model_with_id: "r_model (with_id db inst) = r_model inst"
  by (simp add: with_id_def)

lemma matches_iff: "matches kw r \<longleftrightarrow> (\<forall>(c, v) \<in> set kw. attr r c = v)"
  by (simp add: matches_def list_all_iff)

lemma map_of_merge:
  assumes "distinct (map fst kw)" "disjoint_defaults kw d" "(c, v) \<in> set kw"
  shows "map_of (dict_merge kw d) c = Some v"
proof -
  have "map_of d c = None"
    using assms(2,3) by (force simp: disjoint_defaults_def list_all_iff map_of_eq_None_iff)
  moreover have "map_of kw c = Some v" using assms(1,3) by simp
  ultimately show ?thesis
    by (simp add: dict_merge_def map_add_Some_iff map_of_filter_in)
qed

lemma new_instance_matches:
  assumes "key_cols kw" "disjoint_defaults kw d" "new_instance m (dict_merge kw d) = Inr inst"
  shows "matches kw (with_id db inst) \<and> r_model (with_id db inst) = m"
proof -
  have inst: "inst = \<lparr>r_model = m, r_cols = dict_merge kw d\<rparr>"
    using assms(3) by (simp add: new_instance_def split: if_splits)
  have "attr (with_id db inst) c = v" if "(c, v) \<in> set kw" for c v
  proof -
    have "c \<noteq> ''id''" using assms(1) that by (force simp: key_cols_def)
    moreover have "map_of (dict_merge kw d) c = Some v"
      using map_of_merge assms(1,2) that by (simp add: key_cols_def)
    ultimately show ?thesis by (simp add: attr_with_id) (simp add: attr_def inst)
  qed
  then show ?thesis by (auto simp: matches_iff model_with_id inst)
qed

lemma fold_max_id:
  "a \<le> fold (\<lambda>r a. case attr r ''id'' of SInt n \<Rightarrow> max n a | _ \<Rightarrow> a) xs a \<and>
   (\<forall>r \<in> set xs. \<forall>n. attr r ''id'' = SInt n \<longrightarrow>
      n \<le> fold (\<lambda>r a. case attr r ''id'' of SInt n \<Rightarrow> max n a | _ \<Rightarrow> a) xs a)"
proof (induction xs arbitrary: a)
  case Nil
  then show ?case by simp
next
  case (Cons x xs)
  let ?f = "\<lambda>r a. case attr r ''id'' of SInt n \<Rightarrow> max n a | _ \<Rightarrow> a"
  have step: "a \<le> ?f x a" by (simp split: scalar.splits)
  have hd: "attr x ''id'' = SInt n \<Longrightarrow> n \<le> ?f x a" for n by simp
  from Cons.IH [of "?f x a"] step hd show ?case
    by (auto intro: order_trans)
qed

lemma next_id_fresh: "r \<in> set (table db m) \<Longrightarrow> attr r ''id'' \<noteq> SInt (next_id db m)"
  using fold_max_id [of 0 "table db m"] by (fastforce simp: next_id_def)

lemma uniques_not_null: "u \<in> set (uniques m) \<Longrightarrow> set u \<subseteq> set (not_null m)"
  by (cases m) (auto simp: not_null_def)

lemma uniques_cases: "u \<in> set (uniques m) \<Longrightarrow> ''id'' \<notin> set u \<Longrightarrow> u' \<in> set (uniques m) \<Longrightarrow>
   u' = [''id''] \<or> u' = u"
  by (cases m) auto

lemma table_iff: "r \<in> set (table db m) \<longleftrightarrow> r \<in> set db \<and> r_model r = m"
  by (auto simp: table_def)

lemma violates_iff:
  "violates db r u \<longleftrightarrow>
     (\<forall>c \<in> set u. attr r c \<noteq> SNull) \<and>
     (\<exists>r' \<in> set db. r_model r' = r_model r \<and> (\<forall>c \<in> set u. attr r' c = attr r c))"
  by (auto simp: violates_def list_all_iff list_ex_iff table_iff)

text \<open>A row matching the key of a natural-key insert violates its unique constraint.\<close>

lemma match_violates:
  assumes nk: "natural_key m kw" and r: "matches kw r" "r_model r = m" "\<not> null_violation r"
    and r0: "r0 \<in> set db" "r_model r0 = m" "matches kw r0"
  shows "unique_violation db r"
proof -
  from nk obtain u where u: "u \<in> set (uniques m)" "set u = set (map fst kw)"
    by (auto simp: natural_key_def list_ex_iff)
  have nn: "attr r c \<noteq> SNull" if "c \<in> set u" for c
    using uniques_not_null [OF u(1)] that r(2,3) by (auto simp: null_violation_def list_ex_iff)
  have agree: "attr r0 c = attr r c" if "c \<in> set u" for c
  proof -
    from that u(2) obtain v where "(c, v) \<in> set kw" by auto
    then show ?thesis using r(1) r0(3) by (auto simp: matches_iff)
  qed
  have "violates db r u" using nn agree r0 r(2) by (auto simp: violates_iff)
  then show ?thesis using u(1) r(2) by (auto simp: unique_violation_def list_ex_iff)
qed

text \<open>Conversely, a unique violation of a natural-key insert with a fresh id is a row matching the key.\<close>

lemma violation_match:
  assumes nk: "natural_key m kw" and r: "matches kw r" "r_model r = m"
    and fresh: "attr r ''id'' = SInt (next_id db m)"
    and v: "unique_violation db r"
  shows "\<exists>r0 \<in> set db. r_model r0 = m \<and> matches kw r0"
proof -
  from nk obtain u where u: "u \<in> set (uniques m)" "set u = set (map fst kw)"
    by (auto simp: natural_key_def list_ex_iff)
  have noid: "''id'' \<notin> set u" using nk u(2) by (simp add: natural_key_def key_cols_def)
  from v r(2) obtain u' where u': "u' \<in> set (uniques m)" "violates db r u'"
    by (auto simp: unique_violation_def list_ex_iff)
  have "u' \<noteq> [''id'']"
  proof
    assume "u' = [''id'']"
    with u'(2) r(2) fresh obtain r' where "r' \<in> set (table db m)" "attr r' ''id'' = SInt (next_id db m)"
      by (auto simp: violates_iff table_iff)
    then show False using next_id_fresh by blast
  qed
  with uniques_cases [OF u(1) noid u'(1)] have "u' = u" by simp
  with u'(2) r(2) obtain r0 where r0: "r0 \<in> set db" "r_model r0 = m" "\<forall>c \<in> set u. attr r0 c = attr r c"
    by (auto simp: violates_iff)
  have "matches kw r0"
    unfolding matches_iff
  proof (clarify)
    fix c v assume cv: "(c, v) \<in> set kw"
    then have "c \<in> set u" using u(2) by force
    then show "attr r0 c = v" using r0(3) r(1) cv by (auto simp: matches_iff)
  qed
  then show ?thesis using r0 by blast
qed

lemma find_Some_ex: "\<exists>x \<in> set xs. P x \<Longrightarrow> \<exists>y. find P xs = Some y"
  by (cases "find P xs") (auto simp: find_None_iff)

lemma with_id_fresh:
  assumes "key_cols kw" "disjoint_defaults kw d" "new_instance m (dict_merge kw d) = Inr inst"
  shows "attr (with_id db inst) ''id'' = SInt (next_id db m)"
proof -
  have inst: "inst = \<lparr>r_model = m, r_cols = dict_merge kw d\<rparr>"
    using assms(3) by (simp add: new_instance_def split: if_splits)
  have "''id'' \<notin> fst ` set (dict_merge kw d)"
    using assms(1,2) by (force simp: key_cols_def disjoint_defaults_def list_all_iff dict_merge_def)
  then have "map_of (dict_merge kw d) ''id'' = None" by (simp add: map_of_eq_None_iff)
  then show ?thesis by (simp add: with_id_def attr_def inst)
qed

lemma new_instance_cols:
  "new_instance m p = Inr inst \<Longrightarrow> query_first db m kw = Inr x \<Longrightarrow>
     list_all (\<lambda>(c, v). c \<in> set (columns m)) kw"
  by (simp add: query_first_def split: if_splits)

lemma query_first_Inr_ex:
  assumes "query_first db m kw = Inr x" "r0 \<in> set db'" "r_model r0 = m" "matches kw r0"
  shows "\<exists>r. query_first db' m kw = Inr (Some r)"
proof -
  have "\<exists>r. find (\<lambda>r. r_model r = m \<and> matches kw r) db' = Some r"
    using assms(2-4) by (intro find_Some_ex) auto
  then show ?thesis using assms(1) by (auto simp: query_first_def split: if_splits)
qed

lemma query_first_snoc:
  assumes "query_first db m kw = Inr None" "r_model r = m" "matches kw r"
  shows "query_first (db @ [r]) m kw = Inr (Some r)"
  using assms by (auto simp: query_first_def find_append_None split: if_splits)

lemma query_first_None:
  assumes "query_first db0 m kw = Inr x" "\<And>r0. r0 \<in> set db \<Longrightarrow> r_model r0 = m \<Longrightarrow> \<not> matches kw r0"
  shows "query_first db m kw = Inr None"
  using assms by (auto simp: query_first_def find_None_iff split: if_splits)

text \<open>What a call returns is the first match of its key in the store it leaves.\<close>

lemma get_or_create_first:
  assumes nk: "natural_key m kw" and dd: "disjoint_defaults kw d"
    and g: "get_or_create others db m d kw = (Inr (Some r, c), db')"
  shows "query_first db' m kw = Inr (Some r)"
proof (cases "query_first db m kw")
  case (Inl e)
  then show ?thesis using g by (simp add: get_or_create_def)
next
  case (Inr x)
  show ?thesis
  proof (cases x)
    case (Some r0)
    then show ?thesis using g Inr by (simp add: get_or_create_def)
  next
    case None
    note q = Inr [unfolded None]
    obtain inst where inst: "new_instance m (dict_merge kw d) = Inr inst"
      using g q by (cases "new_instance m (dict_merge kw d)") (auto simp: get_or_create_def)
    let ?db1 = "commit_others others db"
    have kc: "key_cols kw" using nk by (simp add: natural_key_def)
    show ?thesis
    proof (cases "add_commit ?db1 inst")
      case (Inl e)
      then show ?thesis using g q inst
        by (cases e) (auto simp: get_or_create_def Let_def split: sum.splits)
    next
      case (Inr p)
      obtain r1 db2 where p: "p = (r1, db2)" by (cases p)
      have "r1 = r" "db2 = db'" using g q inst Inr p by (simp_all add: get_or_create_def)
      with Inr p have ac: "add_commit ?db1 inst = Inr (r, db')" by simp
      have eq: "r = with_id ?db1 inst" "db' = ?db1 @ [r]" and nv: "\<not> null_violation r"
        and nu: "\<not> unique_violation ?db1 r"
        using add_commit_Inr [OF ac] by blast+
      have mt: "matches kw r" "r_model r = m"
        using new_instance_matches [OF kc dd inst] eq(1) by auto
      have "query_first ?db1 m kw = Inr None"
        using q match_violates [OF nk mt nv] nu by (intro query_first_None) auto
      then show ?thesis using mt eq(2) by (simp add: query_first_snoc)
    qed
  qed
qed

lemma get_or_create_found:
  assumes kc: "key_cols kw" and dd: "disjoint_defaults kw d"
    and g: "get_or_create others db m d kw = (Inr (Some r, c), db')"
  shows "\<exists>r'. query_first db' m kw = Inr (Some r')"
proof (cases "query_first db m kw")
  case (Inl e)
  then show ?thesis using g by (simp add: get_or_create_def)
next
  case (Inr x)
  show ?thesis
  proof (cases x)
    case (Some r0)
    then show ?thesis using g Inr by (simp add: get_or_create_def)
  next
    case None
    note q = Inr [unfolded None]
    obtain inst where inst: "new_instance m (dict_merge kw d) = Inr inst"
      using g q by (cases "new_instance m (dict_merge kw d)") (auto simp: get_or_create_def)
    let ?db1 = "commit_others others db"
    show ?thesis
    proof (cases "add_commit ?db1 inst")
      case (Inl e)
      then show ?thesis using g q inst
        by (cases e) (auto simp: get_or_create_def Let_def split: sum.splits)
    next
      case (Inr p)
      obtain r1 db2 where p: "p = (r1, db2)" by (cases p)
      have "r1 = r" "db2 = db'" using g q inst Inr p by (simp_all add: get_or_create_def)
      with Inr p have ac: "add_commit ?db1 inst = Inr (r, db')" by simp
      have eq: "r = with_id ?db1 inst" "db' = ?db1 @ [r]"
        using add_commit_Inr [OF ac] by blast+
      have mt: "matches kw r" "r_model r = m"
        using new_instance_matches [OF kc dd inst] eq(1) by auto
      show ?thesis using query_first_Inr_ex [OF q _ mt(2,1), of db'] eq(2) by simp
    qed
  qed
qed

text \<open>A uniqueness failure on a natural key: the re-query finds the row that is in the way.\<close>

lemma requery_after_unique_violation:
  assumes nk: "natural_key m kw" and dd: "disjoint_defaults kw d"
    and q: "query_first db m kw = Inr x"
    and inst: "new_instance m (dict_merge kw d) = Inr inst"
    and a: "add_commit db1 inst = Inl (IntegrityError UniqueViolation)"
  shows "\<exists>r. query_first db1 m kw = Inr (Some r) \<and> r \<in> set db1 \<and> r_model r = m \<and> matches kw r"
proof -
  have kc: "key_cols kw" using nk by (simp add: natural_key_def)
  let ?r = "with_id db1 inst"
  have v: "unique_violation db1 ?r"
    using a by (auto simp: add_commit_def Let_def split: if_splits)
  have mt: "matches kw ?r" "r_model ?r = m" using new_instance_matches [OF kc dd inst] by auto
  obtain r0 where "r0 \<in> set db1" "r_model r0 = m" "matches kw r0"
    using violation_match [OF nk mt with_id_fresh [OF kc dd inst] v] by blast
  then obtain r where "query_first db1 m kw = Inr (Some r)"
    using query_first_Inr_ex [OF q] by blast
  then show ?thesis using query_first_Some by blast
qed

lemmas store_eval =
  query_first_def new_instance_def add_commit_def with_id_def next_id_def table_def
  matches_def attr_def too_long_def null_violation_def not_null_def unique_violation_def
  violates_def fk_violation_def dict_merge_def Let_def

section \<open>The claims about get_or_create\<close>



section \<open>Facts about the importer\<close>

lemma nk_subject: "natural_key Subject (subject_key f)"
  by (simp add: natural_key_def key_cols_def)

lemma nk_grade: "natural_key Grade (grade_key f)"
  by (simp add: natural_key_def key_cols_def)

lemma nk_strand: "natural_key Strand (strand_key f subj gr)"
  by (auto simp: natural_key_def key_cols_def)

lemma nk_substrand: "natural_key SubStrand (substrand_key f str)"
  by (auto simp: natural_key_def key_cols_def)

lemma kc_item_lo: "key_cols (item_key ''description'' f ss)"
  by (simp add: key_cols_def)

lemma kc_item_kiq: "key_cols (item_key ''question_text'' f ss)"
  by (simp add: key_cols_def)

lemma dd_nil: "disjoint_defaults kw []"
  by (simp add: disjoint_defaults_def)

lemma step_subject_Done:
  assumes "step_subject others f cc db = (Done, cc1, db1)"
  shows "\<exists>subj c1 dbA gr c2 dbB str c3 dbC ss c4 dbD m col item c5.
     get_or_create (others Subject) db Subject [] (subject_key f) = (Inr (Some subj, c1), dbA) \<and>
     get_or_create (others Grade) dbA Grade [] (grade_key f) = (Inr (Some gr, c2), dbB) \<and>
     get_or_create (others Strand) dbB Strand [] (strand_key f subj gr) = (Inr (Some str, c3), dbC) \<and>
     get_or_create (others SubStrand) dbC SubStrand [] (substrand_key f str) = (Inr (Some ss, c4), dbD) \<and>
     get_or_create (others m) dbD m [] (item_key col f ss) = (Inr (item, c5), db1) \<and>
     (m = LearningOutcome \<and> col = ''description'' \<and> item_type f = ''LearningOutcome'' \<or>
      m = KeyInquiryQuestion \<and> col = ''question_text'' \<and> item_type f = ''KeyInquiryQuestion'') \<and>
     cc1 = bump c5 m (bump c4 SubStrand (bump c3 Strand (bump c2 Grade (bump c1 Subject cc))))"
  using assms
  unfolding step_subject_def step_grade_def step_strand_def step_substrand_def step_item_def create_item_def
  by (auto split: prod.splits sum.splits option.splits if_splits)

lemma step_subject_hits:
  assumes "query_first db Subject (subject_key f) = Inr (Some subj)"
    "query_first db Grade (grade_key f) = Inr (Some gr)"
    "query_first db Strand (strand_key f subj gr) = Inr (Some str)"
    "query_first db SubStrand (substrand_key f str) = Inr (Some ss)"
    "query_first db LearningOutcome (item_key ''description'' f ss) = Inr (Some item)"
    "item_type f = ''LearningOutcome''"
  shows "step_subject others f cc db = (Done, cc, db)"
  using assms
  by (simp add: step_subject_def step_grade_def step_strand_def step_substrand_def
      step_item_def create_item_def get_or_create_hit bump_def)

lemma get_or_create_created:
  "get_or_create others db m d kw = (Inr (x, True), db') \<Longrightarrow> \<exists>r. x = Some r"
  by (auto simp: get_or_create_def Let_def split: sum.splits option.splits db_error.splits)

lemma bump_other: "m' \<noteq> m \<Longrightarrow> bump c m cc m' = cc m'"
  by (simp add: bump_def)

lemma bump_same: "bump c m cc m = (if c then cc m + 1 else cc m)"
  by (simp add: bump_def)

lemma step_subject_again:
  assumes run: "step_subject others f cc db = (Done, cc1, db1)"
    and lo: "cc1 LearningOutcome = cc LearningOutcome + 1"
  shows "step_subject others' f cc' db1 = (Done, cc', db1)"
proof -
  from step_subject_Done [OF run]
  obtain subj c1 dbA gr c2 dbB str c3 dbC ss c4 dbD m col item c5 where
    g1: "get_or_create (others Subject) db Subject [] (subject_key f) = (Inr (Some subj, c1), dbA)" and
    g2: "get_or_create (others Grade) dbA Grade [] (grade_key f) = (Inr (Some gr, c2), dbB)" and
    g3: "get_or_create (others Strand) dbB Strand [] (strand_key f subj gr) = (Inr (Some str, c3), dbC)" and
    g4: "get_or_create (others SubStrand) dbC SubStrand [] (substrand_key f str) = (Inr (Some ss, c4), dbD)" and
    g5: "get_or_create (others m) dbD m [] (item_key col f ss) = (Inr (item, c5), db1)" and
    ty: "m = LearningOutcome \<and> col = ''description'' \<and> item_type f = ''LearningOutcome'' \<or>
         m = KeyInquiryQuestion \<and> col = ''question_text'' \<and> item_type f = ''KeyInquiryQuestion''" and
    cc1: "cc1 = bump c5 m (bump c4 SubStrand (bump c3 Strand (bump c2 Grade (bump c1 Subject cc))))"
    by blast
  have m: "m = LearningOutcome" "col = ''description''" "item_type f = ''LearningOutcome''" and c5: "c5"
    using ty lo cc1 by (auto simp: bump_def split: if_splits)
  from c5 have c5': "c5 = True" by simp
  obtain it where it: "item = Some it"
    using get_or_create_created [OF g5 [unfolded c5']] by blast
  obtain y2 where y2: "dbB = dbA @ y2" using get_or_create_extends [OF g2] by blast
  obtain y3 where y3: "dbC = dbB @ y3" using get_or_create_extends [OF g3] by blast
  obtain y4 where y4: "dbD = dbC @ y4" using get_or_create_extends [OF g4] by blast
  obtain y5 where y5: "db1 = dbD @ y5" using get_or_create_extends [OF g5] by blast
  have q1: "query_first db1 Subject (subject_key f) = Inr (Some subj)"
    using query_first_append [OF get_or_create_first [OF nk_subject dd_nil g1], of "y2 @ y3 @ y4 @ y5"]
    by (simp add: y2 y3 y4 y5)
  have q2: "query_first db1 Grade (grade_key f) = Inr (Some gr)"
    using query_first_append [OF get_or_create_first [OF nk_grade dd_nil g2], of "y3 @ y4 @ y5"]
    by (simp add: y3 y4 y5)
  have q3: "query_first db1 Strand (strand_key f subj gr) = Inr (Some str)"
    using query_first_append [OF get_or_create_first [OF nk_strand dd_nil g3], of "y4 @ y5"]
    by (simp add: y4 y5)
  have q4: "query_first db1 SubStrand (substrand_key f str) = Inr (Some ss)"
    using query_first_append [OF get_or_create_first [OF nk_substrand dd_nil g4], of y5]
    by (simp add: y5)
  obtain it' where q5: "query_first db1 LearningOutcome (item_key ''description'' f ss) = Inr (Some it')"
    using get_or_create_found [OF kc_item_lo dd_nil g5 [unfolded it m]] by blast
  show ?thesis by (rule step_subject_hits [OF q1 q2 q3 q4 q5 m(3)])
qed

lemma import_body_Done:
  "import_body others row cc db = (Done, cc1, db1) \<Longrightarrow>
     \<exists>f. read_fields row = Inr f \<and> \<not> missing_data f \<and> step_subject others f cc db = (Done, cc1, db1)"
  by (auto simp: import_body_def split: sum.splits if_splits)

lemma import_body_again:
  assumes "import_body others row cc db = (Done, cc1, db1)"
    and "cc1 LearningOutcome = cc LearningOutcome + 1"
  shows "import_body others' row cc' db1 = (Done, cc', db1)"
proof -
  from import_body_Done [OF assms(1)] obtain f where
    f: "read_fields row = Inr f" "\<not> missing_data f" "step_subject others f cc db = (Done, cc1, db1)"
    by blast
  from step_subject_again [OF f(3) assms(2)] f(1,2) show ?thesis
    by (simp add: import_body_def)
qed

lemma create_item_count:
  "create_item rs m col ss f cc db = (out, cc1, db1) \<Longrightarrow> out \<noteq> Done \<Longrightarrow> cc1 = cc"
  by (auto simp: create_item_def split: option.splits prod.splits sum.splits)

lemma step_item_count:
  "step_item others ss f cc db = (out, cc1, db1) \<Longrightarrow> out \<noteq> Done \<Longrightarrow> cc1 = cc"
  by (auto simp: step_item_def dest: create_item_count split: if_splits)

lemma step_substrand_count:
  "step_substrand others str f cc db = (out, cc1, db1) \<Longrightarrow> out \<noteq> Done \<Longrightarrow>
     cc1 LearningOutcome = cc LearningOutcome \<and> cc1 KeyInquiryQuestion = cc KeyInquiryQuestion"
  by (auto simp: step_substrand_def bump_def dest!: step_item_count
      split: option.splits prod.splits sum.splits if_splits)

lemma step_strand_count:
  "step_strand others subj gr f cc db = (out, cc1, db1) \<Longrightarrow> out \<noteq> Done \<Longrightarrow>
     cc1 LearningOutcome = cc LearningOutcome \<and> cc1 KeyInquiryQuestion = cc KeyInquiryQuestion"
  by (auto simp: step_strand_def bump_def dest!: step_substrand_count
      split: option.splits prod.splits sum.splits if_splits)

lemma step_grade_count:
  "step_grade others subj f cc db = (out, cc1, db1) \<Longrightarrow> out \<noteq> Done \<Longrightarrow>
     cc1 LearningOutcome = cc LearningOutcome \<and> cc1 KeyInquiryQuestion = cc KeyInquiryQuestion"
  by (auto simp: step_grade_def bump_def dest!: step_strand_count
      split: prod.splits sum.splits if_splits)

lemma step_subject_count:
  "step_subject others f cc db = (out, cc1, db1) \<Longrightarrow> out \<noteq> Done \<Longrightarrow>
     cc1 LearningOutcome = cc LearningOutcome \<and> cc1 KeyInquiryQuestion = cc KeyInquiryQuestion"
  by (auto simp: step_subject_def bump_def dest!: step_grade_count
      split: prod.splits sum.splits if_splits)

lemma import_body_leaf_count:
  assumes "import_body others row cc db = (out, cc1, db1)" "out \<noteq> Done"
  shows "cc1 LearningOutcome = cc LearningOutcome \<and> cc1 KeyInquiryQuestion = cc KeyInquiryQuestion"
  using assms
  by (auto simp: import_body_def dest!: step_subject_count split: sum.splits if_splits)

lemmas string_eval = strip_def isspace_def lower_def lower_char_def

lemmas import_eval =
  import_curriculum_def import_step_def import_body_def read_fields_def get_strip_def
  dict_row_def required_columns_def missing_data_def step_subject_def step_grade_def
  step_strand_def step_substrand_def step_item_def create_item_def bump_def
  initial_state_def unexpected_def quiet_def get_or_create_def

lemma dict_merge_nil: "dict_merge kw [] = kw"
  by (simp add: dict_merge_def)

lemma too_long_with_id: "too_long (with_id db inst) = too_long inst"
  by (cases "r_model inst") (simp_all add: too_long_def model_with_id attr_with_id)

lemma fk_violation_with_id: "fk_violation db (with_id db' inst) = fk_violation db inst"
  by (cases "r_model inst") (simp_all add: fk_violation_def model_with_id attr_with_id)

lemma fk_violation_iff:
  "fk_violation db r \<longleftrightarrow>
     (\<exists>(c, m') \<in> set (foreign_keys (r_model r)).
        attr r c \<noteq> SNull \<and> \<not> (\<exists>r' \<in> set db. r_model r' = m' \<and> attr r' ''id'' = attr r c))"
  by (auto simp: fk_violation_def list_ex_iff table_def)

lemma fk_violation_append: "\<not> fk_violation db r \<Longrightarrow> \<not> fk_violation (db @ ys) r"
  by (fastforce simp: fk_violation_iff)

lemma null_violation_id: "\<not> null_violation r \<Longrightarrow> attr r ''id'' \<noteq> SNull"
  by (simp add: null_violation_def not_null_def)

lemma add_commit_pk:
  "add_commit db inst = Inr (r, db') \<Longrightarrow> pk_not_null db \<Longrightarrow> pk_not_null db'"
  by (auto simp: pk_not_null_def dest!: add_commit_Inr null_violation_id)

lemma commit_others_pk: "pk_not_null db \<Longrightarrow> pk_not_null (commit_others rs db)"
proof (induction rs arbitrary: db)
  case Nil
  then show ?case by simp
next
  case (Cons r rs)
  then show ?case
    by (cases "add_commit db r") (auto dest: add_commit_pk)
qed

lemma get_or_create_pk:
  assumes "get_or_create others db m d kw = (res, db')" "pk_not_null db"
  shows "pk_not_null db'"
proof -
  have "db' = db \<or> db' = commit_others others db \<or>
        (\<exists>inst r. add_commit (commit_others others db) inst = Inr (r, db'))"
    using assms(1)
    by (auto simp: get_or_create_def Let_def
        split: sum.splits option.splits db_error.splits)
  then show ?thesis using assms(2) commit_others_pk add_commit_pk by blast
qed


lemma get_or_create_inserted:
  "query_first db m kw = Inr None \<Longrightarrow> new_instance m (dict_merge kw d) = Inr inst \<Longrightarrow>
   add_commit (commit_others others db) inst = Inr (r, db2) \<Longrightarrow>
   get_or_create others db m d kw = (Inr (Some r, True), db2)"
  by (simp add: get_or_create_def Let_def)

lemma get_or_create_requery:
  "query_first db m kw = Inr None \<Longrightarrow> new_instance m (dict_merge kw d) = Inr inst \<Longrightarrow>
   add_commit (commit_others others db) inst = Inl (IntegrityError v) \<Longrightarrow>
   query_first (commit_others others db) m kw = Inr x \<Longrightarrow>
   get_or_create others db m d kw = (Inr (x, False), commit_others others db)"
  by (simp add: get_or_create_def Let_def)

text \<open>
  A call whose key is a natural key naming every required column, with values that are
  present, fit their columns and refer to existing parents, returns a row.
\<close>

lemma get_or_create_total:
  assumes nk: "natural_key m kw"
    and full: "set (map fst kw) = set (tl (columns m))"
    and nn: "\<forall>(c, v) \<in> set kw. v \<noteq> SNull"
    and len: "\<not> too_long \<lparr>r_model = m, r_cols = kw\<rparr>"
    and fk: "\<not> fk_violation db \<lparr>r_model = m, r_cols = kw\<rparr>"
  shows "\<exists>r c db'. get_or_create others db m [] kw = (Inr (Some r, c), db')"
proof -
  let ?inst = "\<lparr>r_model = m, r_cols = kw\<rparr>"
  let ?db1 = "commit_others others db"
  let ?r = "with_id ?db1 ?inst"
  have kc: "key_cols kw" using nk by (simp add: natural_key_def)
  have "c \<in> set (columns m)" if "(c, v) \<in> set kw" for c v
  proof -
    have "c \<in> set (map fst kw)" using that by force
    then have "c \<in> set (tl (columns m))" using full by simp
    then show ?thesis by (cases "columns m") auto
  qed
  then have cols: "list_all (\<lambda>(c, v). c \<in> set (columns m)) kw"
    by (auto simp: list_all_iff)
  then obtain x where q: "query_first db m kw = Inr x" by (simp add: query_first_def)
  have inst: "new_instance m (dict_merge kw []) = Inr ?inst"
    using cols by (simp add: new_instance_def dict_merge_nil)
  show ?thesis
  proof (cases x)
    case (Some r)
    then show ?thesis using q get_or_create_hit by blast
  next
    case None
    have mt: "matches kw ?r" using new_instance_matches [OF kc dd_nil inst] by simp
    have "attr ?r c \<noteq> SNull" if "c \<in> set (tl (columns m))" for c
    proof -
      from that full have "c \<in> set (map fst kw)" by simp
      then obtain v where "(c, v) \<in> set kw" by auto
      then show ?thesis using mt nn by (auto simp: matches_iff)
    qed
    moreover have "attr ?r ''id'' \<noteq> SNull" using with_id_fresh [OF kc dd_nil inst] by simp
    ultimately have nv: "\<not> null_violation ?r"
      by (auto simp: null_violation_def not_null_def list_ex_iff model_with_id)
    have tl: "\<not> too_long ?r" using len by (simp add: too_long_with_id)
    obtain ys where "?db1 = db @ ys" using commit_others_extends by blast
    then have fv: "\<not> fk_violation ?db1 ?r"
      using fk fk_violation_append by (simp add: fk_violation_with_id)
    show ?thesis
    proof (cases "unique_violation ?db1 ?r")
      case True
      then have a: "add_commit ?db1 ?inst = Inl (IntegrityError UniqueViolation)"
        using tl nv by (simp add: add_commit_def Let_def)
      from requery_after_unique_violation [OF nk dd_nil q inst a]
      obtain r where "query_first ?db1 m kw = Inr (Some r)" by blast
      then have "get_or_create others db m [] kw = (Inr (Some r, False), ?db1)"
        using q None inst a by (intro get_or_create_requery) auto
      then show ?thesis by blast
    next
      case False
      then have "add_commit ?db1 ?inst = Inr (?r, ?db1 @ [?r])"
        using tl nv fv by (simp add: add_commit_def Let_def)
      then have "get_or_create others db m [] kw = (Inr (Some ?r, True), ?db1 @ [?r])"
        using q None inst by (intro get_or_create_inserted) auto
      then show ?thesis by blast
    qed
  qed
qed

lemma get_or_create_row:
  assumes "natural_key m kw" "get_or_create others db m [] kw = (Inr (Some r, c), db')"
  shows "r \<in> set db' \<and> r_model r = m"
  using query_first_Some [OF get_or_create_first [OF assms(1) dd_nil assms(2)]] by simp

lemma pk_not_nullD: "pk_not_null db \<Longrightarrow> r \<in> set db \<Longrightarrow> attr r ''id'' \<noteq> SNull"
  by (simp add: pk_not_null_def list_all_iff)

lemma subject_total:
  assumes "length (subject_name f) \<le> 255"
  shows "\<exists>r c db'. get_or_create others db Subject [] (subject_key f) = (Inr (Some r, c), db')"
  using assms
  by (intro get_or_create_total nk_subject) (simp_all add: too_long_def fk_violation_def attr_def)

lemma grade_total:
  assumes "length (grade_name f) \<le> 100"
  shows "\<exists>r c db'. get_or_create others db Grade [] (grade_key f) = (Inr (Some r, c), db')"
  using assms
  by (intro get_or_create_total nk_grade) (simp_all add: too_long_def fk_violation_def attr_def)

lemma strand_total:
  assumes "length (strand_name f) \<le> 255" "pk_not_null db"
    "subj \<in> set db" "r_model subj = Subject" "gr \<in> set db" "r_model gr = Grade"
  shows "\<exists>r c db'. get_or_create others db Strand [] (strand_key f subj gr) = (Inr (Some r, c), db')"
proof (intro get_or_create_total nk_strand)
  show "set (map fst (strand_key f subj gr)) = set (tl (columns Strand))" by simp
  show "\<forall>(c, v)\<in>set (strand_key f subj gr). v \<noteq> SNull"
    using pk_not_nullD [OF assms(2)] assms(3,5) by simp
  show "\<not> too_long \<lparr>r_model = Strand, r_cols = strand_key f subj gr\<rparr>"
    using assms(1) by (simp add: too_long_def attr_def)
  show "\<not> fk_violation db \<lparr>r_model = Strand, r_cols = strand_key f subj gr\<rparr>"
    using assms(3-6) by (auto simp: fk_violation_iff) (auto simp: attr_def)
qed

lemma substrand_total:
  assumes "length (substrand_name f) \<le> 255" "pk_not_null db"
    "str \<in> set db" "r_model str = Strand"
  shows "\<exists>r c db'. get_or_create others db SubStrand [] (substrand_key f str) = (Inr (Some r, c), db')"
proof (intro get_or_create_total nk_substrand)
  show "set (map fst (substrand_key f str)) = set (tl (columns SubStrand))" by simp
  show "\<forall>(c, v)\<in>set (substrand_key f str). v \<noteq> SNull"
    using pk_not_nullD [OF assms(2)] assms(3) by simp
  show "\<not> too_long \<lparr>r_model = SubStrand, r_cols = substrand_key f str\<rparr>"
    using assms(1) by (simp add: too_long_def attr_def)
  show "\<not> fk_violation db \<lparr>r_model = SubStrand, r_cols = substrand_key f str\<rparr>"
    using assms(3,4) by (auto simp: fk_violation_iff) (auto simp: attr_def)
qed

lemma counted_refl: "counted db cc db cc"
  by (simp add: counted_def)

lemma counted_trans: "counted db cc dbA ccA \<Longrightarrow> counted dbA ccA db1 cc1 \<Longrightarrow> counted db cc db1 cc1"
  unfolding counted_def
proof
  fix m assume a: "\<forall>m. length (table dbA m) + cc m = length (table db m) + ccA m"
    and b: "\<forall>m. length (table db1 m) + ccA m = length (table dbA m) + cc1 m"
  from a b have "length (table dbA m) + cc m = length (table db m) + ccA m"
    "length (table db1 m) + ccA m = length (table dbA m) + cc1 m" by blast+
  then show "length (table db1 m) + cc m = length (table db m) + cc1 m" by arith
qed

lemma get_or_create_quiet:
  assumes "get_or_create [] db m d kw = (res, db')"
  shows "case res of Inl e \<Rightarrow> db' = db
         | Inr (x, c) \<Rightarrow> if c then \<exists>r. db' = db @ [r] \<and> r_model r = m else db' = db"
proof (cases "query_first db m kw")
  case (Inl e)
  then show ?thesis using assms by (auto simp: get_or_create_def)
next
  case (Inr x)
  show ?thesis
  proof (cases x)
    case (Some r)
    then show ?thesis using assms Inr by (auto simp: get_or_create_def)
  next
    case None
    show ?thesis
    proof (cases "new_instance m (dict_merge kw d)")
      case (Inl e)
      then show ?thesis using assms Inr None by (auto simp: get_or_create_def)
    next
      case inst: (Inr inst)
      then have mi: "r_model inst = m" by (auto simp: new_instance_def split: if_splits)
      show ?thesis
      proof (cases "add_commit db inst")
        case (Inl e)
        then show ?thesis using assms Inr None inst
          by (cases e) (auto simp: get_or_create_def split: sum.splits)
      next
        case a: (Inr p)
        obtain r db2 where p: "p = (r, db2)" by (cases p)
        from add_commit_Inr [OF a [unfolded p]] have "db2 = db @ [r]" "r_model r = m"
          using mi by (simp_all add: model_with_id)
        then show ?thesis using assms Inr None inst a p by (auto simp: get_or_create_def)
      qed
    qed
  qed
qed

lemma get_or_create_counted:
  assumes "get_or_create [] db m d kw = (Inr (x, c), db')"
  shows "counted db cc db' (bump c m cc)"
  using get_or_create_quiet [OF assms]
  by (auto simp: counted_def bump_def table_def split: if_splits)

lemma get_or_create_quiet_Inl: "get_or_create [] db m d kw = (Inl e, db') \<Longrightarrow> db' = db"
  using get_or_create_quiet [of db m d kw "Inl e" db'] by simp

lemma create_item_counted:
  "create_item [] m col ss f cc db = (out, cc1, db1) \<Longrightarrow> counted db cc db1 cc1"
  by (auto simp: create_item_def counted_refl
      dest: get_or_create_quiet_Inl get_or_create_counted
      split: option.splits prod.splits sum.splits)

lemma step_item_counted:
  "step_item (\<lambda>m. []) ss f cc db = (out, cc1, db1) \<Longrightarrow> counted db cc db1 cc1"
  by (auto simp: step_item_def counted_refl dest: create_item_counted split: if_splits)

lemma step_substrand_counted:
  "step_substrand (\<lambda>m. []) str f cc db = (out, cc1, db1) \<Longrightarrow> counted db cc db1 cc1"
  by (auto simp: step_substrand_def counted_refl
      dest: get_or_create_quiet_Inl
      dest!: step_item_counted get_or_create_counted [where cc = cc]
      intro: counted_trans
      split: option.splits prod.splits sum.splits)

lemma step_strand_counted:
  "step_strand (\<lambda>m. []) subj gr f cc db = (out, cc1, db1) \<Longrightarrow> counted db cc db1 cc1"
  by (auto simp: step_strand_def counted_refl
      dest: get_or_create_quiet_Inl
      dest!: step_substrand_counted get_or_create_counted [where cc = cc]
      intro: counted_trans
      split: option.splits prod.splits sum.splits)

lemma step_grade_counted:
  "step_grade (\<lambda>m. []) subj f cc db = (out, cc1, db1) \<Longrightarrow> counted db cc db1 cc1"
  by (auto simp: step_grade_def counted_refl
      dest: get_or_create_quiet_Inl
      dest!: step_strand_counted get_or_create_counted [where cc = cc]
      intro: counted_trans
      split: prod.splits sum.splits)

lemma step_subject_counted:
  "step_subject (\<lambda>m. []) f cc db = (out, cc1, db1) \<Longrightarrow> counted db cc db1 cc1"
  by (auto simp: step_subject_def counted_refl
      dest: get_or_create_quiet_Inl
      dest!: step_grade_counted get_or_create_counted [where cc = cc]
      intro: counted_trans
      split: prod.splits sum.splits)

lemma import_body_counted:
  "import_body (\<lambda>m. []) row cc db = (out, cc1, db1) \<Longrightarrow> counted db cc db1 cc1"
  by (auto simp: import_body_def counted_refl dest: step_subject_counted
      split: sum.splits if_splits)

lemma create_item_extends:
  "create_item rs m col ss f cc db = (out, cc1, db1) \<Longrightarrow> \<exists>ys. db1 = db @ ys"
  by (auto simp: create_item_def dest: get_or_create_extends
      split: option.splits prod.splits sum.splits)

lemma step_item_extends:
  "step_item others ss f cc db = (out, cc1, db1) \<Longrightarrow> \<exists>ys. db1 = db @ ys"
  by (auto simp: step_item_def dest: create_item_extends split: if_splits)

lemma extends_trans: "\<exists>ys. dbA = db @ ys \<Longrightarrow> \<exists>ys. db1 = dbA @ ys \<Longrightarrow> \<exists>ys. db1 = db @ ys"
  by auto

lemma step_substrand_extends:
  "step_substrand others str f cc db = (out, cc1, db1) \<Longrightarrow> \<exists>ys. db1 = db @ ys"
  by (auto simp: step_substrand_def
      dest!: step_item_extends get_or_create_extends
      split: option.splits prod.splits sum.splits)

lemma step_strand_extends:
  "step_strand others subj gr f cc db = (out, cc1, db1) \<Longrightarrow> \<exists>ys. db1 = db @ ys"
  by (auto simp: step_strand_def
      dest!: step_substrand_extends get_or_create_extends
      split: option.splits prod.splits sum.splits)

lemma step_grade_extends:
  "step_grade others subj f cc db = (out, cc1, db1) \<Longrightarrow> \<exists>ys. db1 = db @ ys"
  by (auto simp: step_grade_def
      dest!: step_strand_extends get_or_create_extends
      split: prod.splits sum.splits)

lemma step_subject_extends:
  "step_subject others f cc db = (out, cc1, db1) \<Longrightarrow> \<exists>ys. db1 = db @ ys"
  by (auto simp: step_subject_def
      dest!: step_grade_extends get_or_create_extends
      split: prod.splits sum.splits)

lemma import_body_extends:
  "import_body others row cc db = (out, cc1, db1) \<Longrightarrow> \<exists>ys. db1 = db @ ys"
  by (auto simp: import_body_def dest: step_subject_extends split: sum.splits if_splits)

text \<open>
  With names that fit their columns and a store whose rows have their primary keys, the
  four hierarchy levels of a row always resolve, whatever concurrent writers do.
\<close>

lemma hierarchy_resolves:
  assumes pk: "pk_not_null db"
    and len: "length (subject_name f) \<le> 255" "length (grade_name f) \<le> 100"
      "length (strand_name f) \<le> 255" "length (substrand_name f) \<le> 255"
  shows "\<exists>subj gr str ss cc4 dbD.
     step_subject others f cc db = step_item others (Some ss) f cc4 dbD \<and>
     cc4 LearningOutcome = cc LearningOutcome \<and>
     cc4 KeyInquiryQuestion = cc KeyInquiryQuestion \<and>
     query_first dbD Subject (subject_key f) = Inr (Some subj) \<and>
     query_first dbD Grade (grade_key f) = Inr (Some gr) \<and>
     query_first dbD Strand (strand_key f subj gr) = Inr (Some str) \<and>
     query_first dbD SubStrand (substrand_key f str) = Inr (Some ss)"
proof -
  obtain subj c1 dbA where
    g1: "get_or_create (others Subject) db Subject [] (subject_key f) = (Inr (Some subj, c1), dbA)"
    using subject_total [OF len(1)] by blast
  have pkA: "pk_not_null dbA" using get_or_create_pk [OF g1 pk] .
  obtain gr c2 dbB where
    g2: "get_or_create (others Grade) dbA Grade [] (grade_key f) = (Inr (Some gr, c2), dbB)"
    using grade_total [OF len(2)] by blast
  have pkB: "pk_not_null dbB" using get_or_create_pk [OF g2 pkA] .
  obtain y2 where y2: "dbB = dbA @ y2" using get_or_create_extends [OF g2] by blast
  have subj: "subj \<in> set dbB" "r_model subj = Subject"
    using get_or_create_row [OF nk_subject g1] y2 by auto
  have gr: "gr \<in> set dbB" "r_model gr = Grade"
    using get_or_create_row [OF nk_grade g2] by auto
  obtain str c3 dbC where
    g3: "get_or_create (others Strand) dbB Strand [] (strand_key f subj gr) = (Inr (Some str, c3), dbC)"
    using strand_total [OF len(3) pkB subj gr] by blast
  have pkC: "pk_not_null dbC" using get_or_create_pk [OF g3 pkB] .
  obtain y3 where y3: "dbC = dbB @ y3" using get_or_create_extends [OF g3] by blast
  have str: "str \<in> set dbC" "r_model str = Strand"
    using get_or_create_row [OF nk_strand g3] by auto
  obtain ss c4 dbD where
    g4: "get_or_create (others SubStrand) dbC SubStrand [] (substrand_key f str) = (Inr (Some ss, c4), dbD)"
    using substrand_total [OF len(4) pkC str] by blast
  obtain y4 where y4: "dbD = dbC @ y4" using get_or_create_extends [OF g4] by blast
  let ?cc4 = "bump c4 SubStrand (bump c3 Strand (bump c2 Grade (bump c1 Subject cc)))"
  have run: "step_subject others f cc db = step_item others (Some ss) f ?cc4 dbD"
    using g1 g2 g3 g4
    by (simp add: step_subject_def step_grade_def step_strand_def step_substrand_def)
  have q1: "query_first dbD Subject (subject_key f) = Inr (Some subj)"
    using query_first_append [OF get_or_create_first [OF nk_subject dd_nil g1], of "y2 @ y3 @ y4"]
    by (simp add: y2 y3 y4)
  have q2: "query_first dbD Grade (grade_key f) = Inr (Some gr)"
    using query_first_append [OF get_or_create_first [OF nk_grade dd_nil g2], of "y3 @ y4"]
    by (simp add: y3 y4)
  have q3: "query_first dbD Strand (strand_key f subj gr) = Inr (Some str)"
    using query_first_append [OF get_or_create_first [OF nk_strand dd_nil g3], of y4]
    by (simp add: y4)
  have q4: "query_first dbD SubStrand (substrand_key f str) = Inr (Some ss)"
    using get_or_create_first [OF nk_substrand dd_nil g4] .
  have "?cc4 LearningOutcome = cc LearningOutcome" "?cc4 KeyInquiryQuestion = cc KeyInquiryQuestion"
    by (simp_all add: bump_def)
  with run q1 q2 q3 q4 show ?thesis by blast
qed

lemma step_subject_Done_type:
  "step_subject others f cc db = (Done, cc1, db1) \<Longrightarrow>
     item_type f = ''LearningOutcome'' \<or> item_type f = ''KeyInquiryQuestion''"
  using step_subject_Done [of others f cc db cc1 db1] by blast

lemma step_item_leaf_counts:
  "step_item others ss f cc db = (out, cc1, db1) \<Longrightarrow>
     item_type f \<noteq> ''LearningOutcome'' \<Longrightarrow> item_type f \<noteq> ''KeyInquiryQuestion'' \<Longrightarrow>
     out = InvalidItemType \<and> cc1 = cc \<and> db1 = db"
  by (simp add: step_item_def)





section \<open>The claims about the importer\<close>

text \<open>
  Claim C1. Importing the same CSV row twice is idempotent: when a first run of the
  importer on a file with one row has created each of Subject, Grade, Strand, SubStrand
  and LearningOutcome once, a second run on the same file, started from the store the
  first run left, completes without error, reports zero created items for every kind and
  leaves the store as it was. (The first run may have had concurrent writers, and so may
  the second.)
\<close>

theorem import_same_row_twice:
  assumes csv: "fs path = Opened [Record fieldnames, Record cells]"
    and first: "import_curriculum env fs db path = Some st1"
    and created: "created_counts st1 Subject = 1" "created_counts st1 Grade = 1"
      "created_counts st1 Strand = 1" "created_counts st1 SubStrand = 1"
      "created_counts st1 LearningOutcome = 1"
  shows "\<exists>st2. import_curriculum env2 fs (store st1) path = Some st2 \<and>
           store st2 = store st1 \<and> (\<forall>m. created_counts st2 m = 0) \<and>
           error_count st2 = 0 \<and> processed_count st2 = 1"
proof -
  have hdr: "list_all (\<lambda>col. col \<in> set fieldnames) required_columns"
    using csv first by (auto simp: import_curriculum_def split: if_splits)
  have ne: "cells \<noteq> []"
    using csv first created(5) hdr by (auto simp: import_curriculum_def initial_state_def)
  have st1: "st1 = import_step env fieldnames (initial_state db) cells"
    using csv first hdr ne by (simp add: import_curriculum_def)
  obtain out cc1 db1 where
    body: "import_body (env 1) (dict_row fieldnames cells) (\<lambda>m. 0) db = (out, cc1, db1)"
    by (metis prod_cases3)
  have st1': "created_counts st1 = cc1" "store st1 = db1"
    using st1 body by (simp_all add: import_step_def initial_state_def)
  have "out = Done"
    using import_body_leaf_count [OF body] created(5) st1'(1) by auto
  with body st1' created(5)
  have again: "import_body (env2 1) (dict_row fieldnames cells) (\<lambda>m. 0) db1 = (Done, \<lambda>m. 0, db1)"
    by (intro import_body_again [of "env 1" _ "\<lambda>m. 0" db cc1]) auto
  have "import_curriculum env2 fs db1 path =
          Some (import_step env2 fieldnames (initial_state db1) cells)"
    using csv hdr ne by (simp add: import_curriculum_def)
  moreover have "import_step env2 fieldnames (initial_state db1) cells =
     \<lparr>processed_count = 1, created_counts = \<lambda>m. 0, error_count = 0, store = db1\<rparr>"
    using again by (simp add: import_step_def initial_state_def)
  ultimately show ?thesis using st1'(2) by simp
qed

theorem import_same_row_twice_witness:
  "\<exists>st1 st2.
     import_curriculum quiet
       (\<lambda>p. Opened [Record [''Subject'', ''Grade'', ''Strand'', ''SubStrand'', ''ItemType'', ''ItemText''],
                     Record [''Math'', ''Grade4'', ''Numbers'', ''Addition'', ''LearningOutcome'',
                             ''Add two digit numbers'']])
       [] ''curriculum.csv'' = Some st1 \<and>
     map (created_counts st1) [Subject, Grade, Strand, SubStrand, LearningOutcome] = [1, 1, 1, 1, 1] \<and>
     length (store st1) = 5 \<and>
     import_curriculum quiet
       (\<lambda>p. Opened [Record [''Subject'', ''Grade'', ''Strand'', ''SubStrand'', ''ItemType'', ''ItemText''],
                     Record [''Math'', ''Grade4'', ''Numbers'', ''Addition'', ''LearningOutcome'',
                             ''Add two digit numbers'']])
       (store st1) ''curriculum.csv'' = Some st2 \<and>
     store st2 = store st1 \<and> (\<forall>m. created_counts st2 m = 0) \<and> error_count st2 = 0 \<and>
     processed_count st2 = 1"
proof -
  let ?hdr = "[''Subject'', ''Grade'', ''Strand'', ''SubStrand'', ''ItemType'', ''ItemText'']"
  let ?cells = "[''Math'', ''Grade4'', ''Numbers'', ''Addition'', ''LearningOutcome'',
                 ''Add two digit numbers'']"
  let ?fs = "\<lambda>p::string. Opened [Record ?hdr, Record ?cells]"
  obtain st1 where st1: "import_curriculum quiet ?fs [] ''curriculum.csv'' = Some st1"
    and c: "created_counts st1 Subject = 1" "created_counts st1 Grade = 1"
      "created_counts st1 Strand = 1" "created_counts st1 SubStrand = 1"
      "created_counts st1 LearningOutcome = 1"
    and l: "length (store st1) = 5"
    by (simp add: import_eval store_eval string_eval)
  have f: "?fs ''curriculum.csv'' = Opened [Record ?hdr, Record ?cells]" by simp
  from import_same_row_twice [OF f st1 c, of quiet] st1 c l show ?thesis by auto
qed



text \<open>
  Claim C10. Row processing is not atomic across the hierarchy levels. For a row whose
  six fields are non-empty after trimming and whose ItemType is neither
  \<open>LearningOutcome\<close> nor \<open>KeyInquiryQuestion\<close>: the row is counted as an error; the store
  only grows (what the earlier steps committed stays); the LearningOutcome and
  KeyInquiryQuestion counts do not change; with no concurrent writer every table grew by
  exactly what its created count grew by, so the hierarchy rows this row created are
  counted and no leaf item was added; and when the names fit their columns (and the
  store's rows have their primary keys) all four of Subject, Grade, Strand and SubStrand
  are found in the store the row leaves.
\<close>

theorem invalid_item_type_not_atomic:
  assumes row: "read_fields (dict_row fieldnames cells) = Inr f" "\<not> missing_data f"
    and ty: "item_type f \<noteq> ''LearningOutcome''" "item_type f \<noteq> ''KeyInquiryQuestion''"
    and st': "st' = import_step env fieldnames st cells"
  shows "error_count st' = error_count st + 1 \<and>
         processed_count st' = processed_count st + 1 \<and>
         (\<exists>ys. store st' = store st @ ys) \<and>
         created_counts st' LearningOutcome = created_counts st LearningOutcome \<and>
         created_counts st' KeyInquiryQuestion = created_counts st KeyInquiryQuestion \<and>
         ((\<forall>m. env (processed_count st + 1) m = []) \<longrightarrow>
            counted (store st) (created_counts st) (store st') (created_counts st')) \<and>
         (pk_not_null (store st) \<and> length (subject_name f) \<le> 255 \<and>
          length (grade_name f) \<le> 100 \<and> length (strand_name f) \<le> 255 \<and>
          length (substrand_name f) \<le> 255 \<longrightarrow>
            (\<exists>subj gr str ss.
               query_first (store st') Subject (subject_key f) = Inr (Some subj) \<and>
               query_first (store st') Grade (grade_key f) = Inr (Some gr) \<and>
               query_first (store st') Strand (strand_key f subj gr) = Inr (Some str) \<and>
               query_first (store st') SubStrand (substrand_key f str) = Inr (Some ss)))"
proof -
  let ?others = "env (processed_count st + 1)"
  let ?row = "dict_row fieldnames cells"
  obtain out cc1 db1 where
    body: "import_body ?others ?row (created_counts st) (store st) = (out, cc1, db1)"
    by (metis prod_cases3)
  have step: "step_subject ?others f (created_counts st) (store st) = (out, cc1, db1)"
    using body row by (simp add: import_body_def)
  have nd: "out \<noteq> Done" using step step_subject_Done_type ty by blast
  have s: "processed_count st' = processed_count st + 1" "error_count st' = error_count st + 1"
    "created_counts st' = cc1" "store st' = db1"
    using body nd by (simp_all add: st' import_step_def)
  have ext: "\<exists>ys. store st' = store st @ ys"
    using import_body_extends [OF body] s(4) by simp
  have leaf: "created_counts st' LearningOutcome = created_counts st LearningOutcome"
    "created_counts st' KeyInquiryQuestion = created_counts st KeyInquiryQuestion"
    using import_body_leaf_count [OF body nd] s(3) by simp_all
  have cnt: "counted (store st) (created_counts st) (store st') (created_counts st')"
    if "\<forall>m. ?others m = []"
  proof -
    from that have "?others = (\<lambda>m. [])" by auto
    with body show ?thesis using import_body_counted s(3,4) by metis
  qed
  have res: "\<exists>subj gr str ss.
               query_first (store st') Subject (subject_key f) = Inr (Some subj) \<and>
               query_first (store st') Grade (grade_key f) = Inr (Some gr) \<and>
               query_first (store st') Strand (strand_key f subj gr) = Inr (Some str) \<and>
               query_first (store st') SubStrand (substrand_key f str) = Inr (Some ss)"
    if pk: "pk_not_null (store st)" and len: "length (subject_name f) \<le> 255"
      "length (grade_name f) \<le> 100" "length (strand_name f) \<le> 255"
      "length (substrand_name f) \<le> 255"
  proof -
    from hierarchy_resolves [OF pk len, of ?others "created_counts st"]
    obtain subj gr str ss cc4 dbD where
      run: "step_subject ?others f (created_counts st) (store st) = step_item ?others (Some ss) f cc4 dbD"
      and q: "query_first dbD Subject (subject_key f) = Inr (Some subj)"
        "query_first dbD Grade (grade_key f) = Inr (Some gr)"
        "query_first dbD Strand (strand_key f subj gr) = Inr (Some str)"
        "query_first dbD SubStrand (substrand_key f str) = Inr (Some ss)"
      by blast
    from run step have "step_item ?others (Some ss) f cc4 dbD = (out, cc1, db1)" by simp
    from step_item_leaf_counts [OF this ty] have "db1 = dbD" by simp
    with q s(4) show ?thesis by auto
  qed
  from s ext leaf cnt res show ?thesis by blast
qed

theorem invalid_item_type_not_atomic_witness:
  "\<exists>f st'.
     read_fields (dict_row [''Subject'', ''Grade'', ''Strand'', ''SubStrand'', ''ItemType'', ''ItemText'']
                    [''Math'', ''Grade4'', ''Numbers'', ''Addition'', ''Essay'', ''Add two digit numbers''])
       = Inr f \<and>
     \<not> missing_data f \<and> item_type f = ''Essay'' \<and>
     st' = import_step quiet [''Subject'', ''Grade'', ''Strand'', ''SubStrand'', ''ItemType'', ''ItemText'']
             (initial_state [])
             [''Math'', ''Grade4'', ''Numbers'', ''Addition'', ''Essay'', ''Add two digit numbers''] \<and>
     error_count st' = 1 \<and> processed_count st' = 1 \<and>
     created_counts st' LearningOutcome = 0 \<and> created_counts st' KeyInquiryQuestion = 0 \<and>
     counted [] (\<lambda>m. 0) (store st') (created_counts st') \<and>
     (\<exists>subj gr str ss.
        query_first (store st') Subject (subject_key f) = Inr (Some subj) \<and>
        query_first (store st') Grade (grade_key f) = Inr (Some gr) \<and>
        query_first (store st') Strand (strand_key f subj gr) = Inr (Some str) \<and>
        query_first (store st') SubStrand (substrand_key f str) = Inr (Some ss))"
proof -
  let ?hdr = "[''Subject'', ''Grade'', ''Strand'', ''SubStrand'', ''ItemType'', ''ItemText'']"
  let ?cells = "[''Math'', ''Grade4'', ''Numbers'', ''Addition'', ''Essay'', ''Add two digit numbers'']"
  let ?f = "\<lparr>subject_name = ''Math'', grade_name = ''Grade4'', strand_name = ''Numbers'',
             substrand_name = ''Addition'', item_type = ''Essay'',
             item_text = ''Add two digit numbers''\<rparr>"
  let ?st = "initial_state []"
  have rf: "read_fields (dict_row ?hdr ?cells) = Inr ?f"
    by (simp add: read_fields_def get_strip_def dict_row_def string_eval)
  have md: "\<not> missing_data ?f" by (simp add: missing_data_def)
  have ty: "item_type ?f \<noteq> ''LearningOutcome''" "item_type ?f \<noteq> ''KeyInquiryQuestion''" by simp_all
  have q: "\<forall>m. quiet (processed_count ?st + 1) m = []" by (simp add: quiet_def)
  have pk: "pk_not_null (store ?st) \<and> length (subject_name ?f) \<le> 255 \<and>
          length (grade_name ?f) \<le> 100 \<and> length (strand_name ?f) \<le> 255 \<and>
          length (substrand_name ?f) \<le> 255"
    by (simp add: pk_not_null_def initial_state_def)
  have i: "store ?st = []" "created_counts ?st = (\<lambda>m. 0)" "error_count ?st = 0" "processed_count ?st = 0"
    by (simp_all add: initial_state_def)
  from invalid_item_type_not_atomic [OF rf md ty refl, of quiet ?st] q pk
  show ?thesis unfolding i using rf md by (intro exI [of _ ?f]) auto
qed

section \<open>Facts about the question generator\<close>

declare digits.simps [simp del]

lemma map_of_diag: "map_of (map (\<lambda>t. (t, t)) xs) q = (if q \<in> set xs then Some q else None)"
  by (induction xs) auto

lemma q_type_map_eq:
  "map_of q_type_map q =
     (if q = ''mcq'' then Some ''multiple_choice''
      else if q \<in> set allowed_q then Some q else None)"
  unfolding q_type_map_def by (simp only: map_of.simps fst_conv snd_conv map_of_diag fun_upd_apply)

lemma q_type_map_None:
  "map_of q_type_map q = None \<longleftrightarrow> q \<notin> set (''mcq'' # allowed_q)"
  by (simp only: q_type_map_eq list.set insert_iff split: if_splits) blast

lemma py_int_errors: "py_int v = Inl e \<Longrightarrow> e = ValueError \<or> e = TypeError \<or> e = OverflowError"
proof (cases v)
  case (SFloat x)
  assume "py_int v = Inl e"
  with SFloat show ?thesis by (cases x) auto
qed (auto split: option.splits)

text \<open>
  What holds of the validation: when neither conversion overflows, a request with a count
  outside 1..20 or an unsupported kind is answered 400 with no read, AI call or log entry.
\<close>

lemma rejected:
  assumes "py_int (field (data req) ''learning_outcome_id'') \<noteq> Inl OverflowError"
    "py_int (field (data req) ''num_questions'') \<noteq> Inl OverflowError"
    "(\<forall>n. py_int (field (data req) ''num_questions'') = Inr n \<longrightarrow> n < 1 \<or> 20 < n) \<or>
     map_of q_type_map (lower (py_str (field (data req) ''question_type''))) = None"
  shows "status (fst (generate_questions_endpoint sv req)) = 400 \<and>
         snd (generate_questions_endpoint sv req) = []"
proof (cases "py_int (field (data req) ''learning_outcome_id'')")
  case (Inl e)
  with assms(1) py_int_errors [OF Inl] show ?thesis
    by (auto simp: generate_questions_endpoint_def conversion_failed_def error_response_def)
next
  case lo: (Inr lo_id)
  show ?thesis
  proof (cases "py_int (field (data req) ''num_questions'')")
    case (Inl e)
    with assms(2) py_int_errors [OF Inl] lo show ?thesis
      by (auto simp: generate_questions_endpoint_def conversion_failed_def error_response_def)
  next
    case (Inr n)
    with lo assms(3) show ?thesis
      by (auto simp: generate_questions_endpoint_def error_response_def Let_def)
  qed
qed

lemma sublist_mid: "sublist x (p @ x @ s)"
  by (rule sublist_appendI)

lemma sublist_end: "sublist x (p @ x)"
  using sublist_appendI [of x p "[]"] by simp

lemma sublist_py_lines_Cons: "sublist x (py_lines ls) \<Longrightarrow> sublist x (py_lines (l # ls))"
proof -
  assume "sublist x (py_lines ls)"
  then obtain ps ss where "py_lines ls = ps @ x @ ss" by (auto simp: sublist_def)
  then have "py_lines (l # ls) = (CHR 0x0A # l @ ps) @ x @ ss" by (simp add: py_lines_def)
  then show ?thesis by (metis sublist_appendI)
qed

lemma sublist_py_lines_hd: "sublist x l \<Longrightarrow> sublist x (py_lines (l # ls))"
proof -
  assume "sublist x l"
  then obtain ps ss where "l = ps @ x @ ss" by (auto simp: sublist_def)
  then have "py_lines (l # ls) = (CHR 0x0A # ps) @ x @ (ss @ py_lines ls)" by (simp add: py_lines_def)
  then show ?thesis by (metis sublist_appendI)
qed

lemma build_prompt_count: "sublist (str_int n) (build_prompt n k ctx)"
  unfolding build_prompt_def
  by (rule sublist_py_lines_hd [OF sublist_mid])

lemma build_prompt_kind: "sublist (k) (build_prompt n k ctx)"
  unfolding build_prompt_def
  by (rule sublist_py_lines_Cons [OF sublist_py_lines_hd [OF sublist_mid]])

lemma build_prompt_subject: "sublist (py_str (subject ctx)) (build_prompt n k ctx)"
  unfolding build_prompt_def
  by (rule sublist_py_lines_Cons [OF sublist_py_lines_Cons [OF sublist_py_lines_Cons [OF sublist_py_lines_hd [OF sublist_end]]]])

lemma build_prompt_grade: "sublist (py_str (grade ctx)) (build_prompt n k ctx)"
  unfolding build_prompt_def
  by (rule sublist_py_lines_Cons [OF sublist_py_lines_Cons [OF sublist_py_lines_Cons [OF sublist_py_lines_Cons [OF sublist_py_lines_hd [OF sublist_end]]]]])

lemma build_prompt_strand: "sublist (py_str (strand ctx)) (build_prompt n k ctx)"
  unfolding build_prompt_def
  by (rule sublist_py_lines_Cons [OF sublist_py_lines_Cons [OF sublist_py_lines_Cons [OF sublist_py_lines_Cons [OF sublist_py_lines_Cons [OF sublist_py_lines_hd [OF sublist_end]]]]]])

lemma build_prompt_substrand: "sublist (py_str (substrand ctx)) (build_prompt n k ctx)"
  unfolding build_prompt_def
  by (rule sublist_py_lines_Cons [OF sublist_py_lines_Cons [OF sublist_py_lines_Cons [OF sublist_py_lines_Cons [OF sublist_py_lines_Cons [OF sublist_py_lines_Cons [OF sublist_py_lines_hd [OF sublist_end]]]]]]])

lemma build_prompt_outcome: "sublist (py_str (outcome_description ctx)) (build_prompt n k ctx)"
  unfolding build_prompt_def
  by (rule sublist_py_lines_Cons [OF sublist_py_lines_Cons [OF sublist_py_lines_Cons [OF sublist_py_lines_Cons [OF sublist_py_lines_Cons [OF sublist_py_lines_Cons [OF sublist_py_lines_Cons [OF sublist_py_lines_hd [OF sublist_mid]]]]]]]])

lemma call_ai_generates:
  "ai_model sv = Some g \<Longrightarrow> \<exists>resp ev. call_ai sv lo_id prompt = (resp, Generate prompt # ev)"
  by (auto simp: call_ai_def split: sum.splits prod.splits)

lemma q_type_map_Some:
  assumes "q \<in> set (''mcq'' # allowed_q)"
  shows "map_of q_type_map q = Some (if q = ''mcq'' then ''multiple_choice'' else q)"
proof (cases "q = ''mcq''")
  case True
  then show ?thesis by (simp only: q_type_map_eq if_True refl simp_thms)
next
  case False
  with assms have "q \<in> set allowed_q" by (simp only: list.set insert_iff) blast
  with False show ?thesis by (simp only: q_type_map_eq if_False if_True simp_thms)
qed

lemma endpoint_valid:
  assumes "is_json req"
    "list_all (\<lambda>f. f \<in> set (map fst (data req)))
       [''learning_outcome_id'', ''num_questions'', ''question_type'']"
    "py_int (field (data req) ''learning_outcome_id'') = Inr lo_id"
    "py_int (field (data req) ''num_questions'') = Inr n" "1 \<le> n" "n \<le> 20"
    "map_of q_type_map (lower (py_str (field (data req) ''question_type''))) = Some kind"
    "fetch_context sv lo_id = (Inr ctx, ev)"
  shows "generate_questions_endpoint sv req =
           (fst (call_ai sv lo_id (build_prompt n kind ctx)),
            ev @ snd (call_ai sv lo_id (build_prompt n kind ctx)))"
proof -
  have "data req \<noteq> []" using assms(2) by auto
  then show ?thesis using assms
    by (simp add: generate_questions_endpoint_def Let_def split: prod.splits)
qed

section \<open>The claims about the single-outcome generator\<close>

text \<open>
  Claim C7. In single-outcome mode, when the request is valid, its context resolves, the
  AI model answers and the cleaned answer parses to a value \<open>v\<close>: if \<open>v\<close> is not a list the
  request fails, with status 500 and the body
  \<open>{"error": "AI generation failed.", "details": "AI response is not a JSON list."}\<close>; if
  \<open>v\<close> is a list the response is that list with status 200; and for the empty list the
  response is \<open>[]\<close> with status 200 and what the request does after resolving its context
  is the AI call, one warning and one info entry in the log, and no error entry.
\<close>

theorem parsed_value_must_be_list:
  assumes "is_json req"
    "list_all (\<lambda>f. f \<in> set (map fst (data req)))
       [''learning_outcome_id'', ''num_questions'', ''question_type'']"
    "py_int (field (data req) ''learning_outcome_id'') = Inr lo_id"
    "py_int (field (data req) ''num_questions'') = Inr n" "1 \<le> n" "n \<le> 20"
    "map_of q_type_map (lower (py_str (field (data req) ''question_type''))) = Some kind"
    "fetch_context sv lo_id = (Inr ctx, ev)"
    "ai_model sv = Some g" "g (build_prompt n kind ctx) = Inr raw"
    "clean_text raw \<noteq> []" "json_loads sv (clean_text raw) = Parsed v"
  shows "((\<forall>xs. v \<noteq> JList xs) \<longrightarrow>
            status (fst (generate_questions_endpoint sv req)) = 500 \<and>
            body (fst (generate_questions_endpoint sv req)) =
              JObj [(''error'', JStr ''AI generation failed.''),
                    (''details'', JStr ''AI response is not a JSON list.'')]) \<and>
         (\<forall>xs. v = JList xs \<longrightarrow>
            status (fst (generate_questions_endpoint sv req)) = 200 \<and>
            body (fst (generate_questions_endpoint sv req)) = JList xs) \<and>
         (v = JList [] \<longrightarrow>
            snd (generate_questions_endpoint sv req) =
              ev @
              [Generate (build_prompt n kind ctx),
               Log WARNING (''AI returned an empty JSON list [] for LO ID '' @ str_int lo_id @ ''.''),
               Log INFO (''User '' @ [CHR 0x27] @ current_user_email sv @ [CHR 0x27] @
                         '' generated 0 questions for LO ID '' @ str_int lo_id)])"
proof -
  let ?p = "build_prompt n kind ctx"
  have e: "generate_questions_endpoint sv req = (fst (call_ai sv lo_id ?p), ev @ snd (call_ai sv lo_id ?p))"
    by (rule endpoint_valid [OF assms(1-8)])
  have c: "call_ai sv lo_id ?p =
     (case parse_questions sv lo_id raw of
        (Inr resp, ev') \<Rightarrow> (resp, Generate ?p # ev')
      | (Inl m, ev') \<Rightarrow>
          (error_details 500 ''AI generation failed.'' m,
           Generate ?p # ev' @
           [Log ERROR (''AI Generation Error for LO ID '' @ str_int lo_id @ '': '' @ m)]))"
    using assms(9,10) by (simp add: call_ai_def)
  have zero: "str_int 0 = ''0''" by code_simp
  have p1: "\<forall>xs. v \<noteq> JList xs \<Longrightarrow>
      parse_questions sv lo_id raw = (Inl ''AI response is not a JSON list.'', [])"
    using assms(11,12) by (cases v) (simp_all add: parse_questions_def)
  have p2: "v = JList xs \<Longrightarrow> fst (parse_questions sv lo_id raw) = Inr \<lparr>status = 200, body = JList xs\<rparr>"
    for xs
    using assms(11,12) by (simp add: parse_questions_def)
  have p3: "v = JList [] \<Longrightarrow> snd (parse_questions sv lo_id raw) =
      [Log WARNING (''AI returned an empty JSON list [] for LO ID '' @ str_int lo_id @ ''.''),
       Log INFO (''User '' @ [CHR 0x27] @ current_user_email sv @ [CHR 0x27] @
                 '' generated 0 questions for LO ID '' @ str_int lo_id)]"
    using assms(11,12) zero by (simp add: parse_questions_def)
  show ?thesis
  proof (intro conjI impI allI)
    assume "\<forall>xs. v \<noteq> JList xs"
    from p1 [OF this]
    have r: "fst (generate_questions_endpoint sv req) =
        error_details 500 ''AI generation failed.'' ''AI response is not a JSON list.''"
      by (simp add: e c)
    show "status (fst (generate_questions_endpoint sv req)) = 500"
      unfolding r by (simp add: error_details_def)
    show "body (fst (generate_questions_endpoint sv req)) =
              JObj [(''error'', JStr ''AI generation failed.''),
                    (''details'', JStr ''AI response is not a JSON list.'')]"
      unfolding r by (simp add: error_details_def)
  next
    fix xs assume v: "v = JList xs"
    from p2 [OF v]
    have r: "fst (generate_questions_endpoint sv req) = \<lparr>status = 200, body = JList xs\<rparr>"
      by (cases "parse_questions sv lo_id raw") (simp add: e c)
    show "status (fst (generate_questions_endpoint sv req)) = 200" unfolding r by simp
    show "body (fst (generate_questions_endpoint sv req)) = JList xs" unfolding r by simp
  next
    assume v: "v = JList []"
    obtain resp where r: "parse_questions sv lo_id raw = (Inr resp, snd (parse_questions sv lo_id raw))"
      using p2 [OF v] by (cases "parse_questions sv lo_id raw") auto
    have s: "snd (generate_questions_endpoint sv req) =
        ev @ Generate ?p # snd (parse_questions sv lo_id raw)"
      unfolding e c by (subst r) simp
    show "snd (generate_questions_endpoint sv req) =
              ev @
              [Generate (build_prompt n kind ctx),
               Log WARNING (''AI returned an empty JSON list [] for LO ID '' @ str_int lo_id @ ''.''),
               Log INFO (''User '' @ [CHR 0x27] @ current_user_email sv @ [CHR 0x27] @
                         '' generated 0 questions for LO ID '' @ str_int lo_id)]"
      unfolding s p3 [OF v] by simp
  qed
qed

text \<open>
  The theorem at a request for two questions on a store with one learning outcome: an AI
  answer that parses to the empty list gives 200 and \<open>[]\<close>, one that parses to an object
  gives 500.
\<close>

theorem parsed_value_must_be_list_witness:
  "fst (generate_questions_endpoint
         ((store_services
            [\<lparr>r_model = Subject, r_cols = [(''id'', SInt 7), (''name'', SStr ''Math'')]\<rparr>,
             \<lparr>r_model = Grade, r_cols = [(''id'', SInt 4), (''name'', SStr ''Grade4'')]\<rparr>,
             \<lparr>r_model = Strand, r_cols = [(''id'', SInt 3), (''name'', SStr ''Numbers''),
                (''subject_id'', SInt 7), (''grade_id'', SInt 4)]\<rparr>,
             \<lparr>r_model = SubStrand, r_cols = [(''id'', SInt 2), (''name'', SStr ''Addition''),
                (''strand_id'', SInt 3)]\<rparr>,
             \<lparr>r_model = LearningOutcome, r_cols = [(''id'', SInt 1), (''substrand_id'', SInt 2),
                (''description'', SStr ''Add two digit numbers'')]\<rparr>])
          \<lparr>ai_model := Some (\<lambda>p. Inr ''[]''), json_loads := (\<lambda>s. Parsed (JList []))\<rparr>)
         \<lparr>is_json = True,
          data = [(''learning_outcome_id'', SInt 1), (''num_questions'', SInt 2),
                  (''question_type'', SStr ''mcq'')]\<rparr>) = \<lparr>status = 200, body = JList []\<rparr> \<and>
   fst (generate_questions_endpoint
         ((store_services
            [\<lparr>r_model = Subject, r_cols = [(''id'', SInt 7), (''name'', SStr ''Math'')]\<rparr>,
             \<lparr>r_model = Grade, r_cols = [(''id'', SInt 4), (''name'', SStr ''Grade4'')]\<rparr>,
             \<lparr>r_model = Strand, r_cols = [(''id'', SInt 3), (''name'', SStr ''Numbers''),
                (''subject_id'', SInt 7), (''grade_id'', SInt 4)]\<rparr>,
             \<lparr>r_model = SubStrand, r_cols = [(''id'', SInt 2), (''name'', SStr ''Addition''),
                (''strand_id'', SInt 3)]\<rparr>,
             \<lparr>r_model = LearningOutcome, r_cols = [(''id'', SInt 1), (''substrand_id'', SInt 2),
                (''description'', SStr ''Add two digit numbers'')]\<rparr>])
          \<lparr>ai_model := Some (\<lambda>p. Inr ''{}''), json_loads := (\<lambda>s. Parsed (JObj []))\<rparr>)
         \<lparr>is_json = True,
          data = [(''learning_outcome_id'', SInt 1), (''num_questions'', SInt 2),
                  (''question_type'', SStr ''mcq'')]\<rparr>) =
     \<lparr>status = 500,
      body = JObj [(''error'', JStr ''AI generation failed.''),
                   (''details'', JStr ''AI response is not a JSON list.'')]\<rparr>"
proof -
  let ?db = "[\<lparr>r_model = Subject, r_cols = [(''id'', SInt 7), (''name'', SStr ''Math'')]\<rparr>,
             \<lparr>r_model = Grade, r_cols = [(''id'', SInt 4), (''name'', SStr ''Grade4'')]\<rparr>,
             \<lparr>r_model = Strand, r_cols = [(''id'', SInt 3), (''name'', SStr ''Numbers''),
                (''subject_id'', SInt 7), (''grade_id'', SInt 4)]\<rparr>,
             \<lparr>r_model = SubStrand, r_cols = [(''id'', SInt 2), (''name'', SStr ''Addition''),
                (''strand_id'', SInt 3)]\<rparr>,
             \<lparr>r_model = LearningOutcome, r_cols = [(''id'', SInt 1), (''substrand_id'', SInt 2),
                (''description'', SStr ''Add two digit numbers'')]\<rparr>]"
  let ?ga = "\<lambda>p::string. (Inr ''[]'' :: string + string)"
  let ?gb = "\<lambda>p::string. (Inr ''{}'' :: string + string)"
  let ?sa = "(store_services ?db)\<lparr>ai_model := Some ?ga, json_loads := (\<lambda>s. Parsed (JList []))\<rparr>"
  let ?sb = "(store_services ?db)\<lparr>ai_model := Some ?gb, json_loads := (\<lambda>s. Parsed (JObj []))\<rparr>"
  let ?req = "\<lparr>is_json = True,
          data = [(''learning_outcome_id'', SInt 1), (''num_questions'', SInt 2),
                  (''question_type'', SStr ''mcq'')]\<rparr>"
  let ?ctx = "\<lparr>subject = SStr ''Math'', grade = SStr ''Grade4'', strand = SStr ''Numbers'',
         substrand = SStr ''Addition'', outcome_description = SStr ''Add two digit numbers''\<rparr>"
  let ?ev = "[Read LearningOutcome (SInt 1), Read SubStrand (SInt 2), Read Strand (SInt 3),
              Read Subject (SInt 7), Read Grade (SInt 4)]"
  have h1: "is_json ?req" by simp
  have h2: "list_all (\<lambda>f. f \<in> set (map fst (data ?req)))
      [''learning_outcome_id'', ''num_questions'', ''question_type'']" by simp
  have h3: "py_int (field (data ?req) ''learning_outcome_id'') = Inr 1" by code_simp
  have h4: "py_int (field (data ?req) ''num_questions'') = Inr 2" by code_simp
  have h5: "(1::int) \<le> 2" "(2::int) \<le> 20" by simp_all
  have h6: "map_of q_type_map (lower (py_str (field (data ?req) ''question_type''))) =
      Some ''multiple_choice''" by code_simp
  have h7a: "fetch_context ?sa 1 = (Inr ?ctx, ?ev)" by code_simp
  have h7b: "fetch_context ?sb 1 = (Inr ?ctx, ?ev)" by code_simp
  have h8a: "ai_model ?sa = Some ?ga" by simp
  have h8b: "ai_model ?sb = Some ?gb" by simp
  have h9a: "?ga (build_prompt 2 ''multiple_choice'' ?ctx) = Inr ''[]''" by simp
  have h9b: "?gb (build_prompt 2 ''multiple_choice'' ?ctx) = Inr ''{}''" by simp
  have h10a: "clean_text ''[]'' \<noteq> []" by code_simp
  have h10b: "clean_text ''{}'' \<noteq> []" by code_simp
  have h11a: "json_loads ?sa (clean_text ''[]'') = Parsed (JList [])" by simp
  have h11b: "json_loads ?sb (clean_text ''{}'') = Parsed (JObj [])" by simp
  note a = parsed_value_must_be_list [OF h1 h2 h3 h4 h5 h6 h7a h8a h9a h10a h11a]
  note b = parsed_value_must_be_list [OF h1 h2 h3 h4 h5 h6 h7b h8b h9b h10b h11b]
  have lb: "\<forall>xs. JObj [] \<noteq> JList xs" by simp
  note a2 = a [THEN conjunct2, THEN conjunct1, THEN spec, THEN mp, OF refl]
  note b1 = b [THEN conjunct1, THEN mp, OF lb]
  have ra: "fst (generate_questions_endpoint ?sa ?req) = \<lparr>status = 200, body = JList []\<rparr>"
    using a2 by (cases "fst (generate_questions_endpoint ?sa ?req)") simp
  have rb: "fst (generate_questions_endpoint ?sb ?req) =
     \<lparr>status = 500,
      body = JObj [(''error'', JStr ''AI generation failed.''),
                   (''details'', JStr ''AI response is not a JSON list.'')]\<rparr>"
    using b1 by (cases "fst (generate_questions_endpoint ?sb ?req)") simp
  from ra rb show ?thesis by (intro conjI)
qed

end
